theory Spec2Isabelle
  imports Main "HOL-Library.AList"
begin

section \<open>Strings\<close>

text \<open>
  JavaScript strings are modelled as \<open>string\<close> (a list of characters). The helpers
  below follow \<open>String.prototype\<close>: \<open>toLowerCase\<close> (on the ASCII letters),
  \<open>startsWith\<close>, \<open>includes\<close> (\<open>str_includes\<close>, a case-sensitive substring test), \<open>split\<close> on a
  one-character separator and \<open>Array.prototype.join\<close>.
\<close>

definition lower_char :: "char \<Rightarrow> char" where
  "lower_char c =
     (case map_of (zip ''ABCDEFGHIJKLMNOPQRSTUVWXYZ'' ''abcdefghijklmnopqrstuvwxyz'') c of
        Some d \<Rightarrow> d
      | None \<Rightarrow> c)"

definition toLowerCase :: "string \<Rightarrow> string" where
  "toLowerCase s = map lower_char s"

fun startsWith :: "string \<Rightarrow> string \<Rightarrow> bool" where
  "startsWith s [] = True"
| "startsWith [] (p # ps) = False"
| "startsWith (c # cs) (p # ps) = (c = p \<and> startsWith cs ps)"

fun str_includes :: "string \<Rightarrow> string \<Rightarrow> bool" where
  "str_includes [] p = (p = [])"
| "str_includes (c # cs) p = (startsWith (c # cs) p \<or> str_includes cs p)"

text \<open>\<open>split_on sep s\<close> is \<open>s.split(sep)\<close>: it always returns at least one part.\<close>

fun split_on :: "char \<Rightarrow> string \<Rightarrow> string list" where
  "split_on sep [] = [[]]"
| "split_on sep (c # cs) =
     (if c = sep then [] # split_on sep cs
      else (case split_on sep cs of
              [] \<Rightarrow> [[c]]
            | p # ps \<Rightarrow> (c # p) # ps))"

fun join :: "string \<Rightarrow> string list \<Rightarrow> string" where
  "join sep [] = []"
| "join sep [x] = x"
| "join sep (x # y # ys) = x @ sep @ join sep (y # ys)"

text \<open>\<open>some P xs\<close> is \<open>xs.some(P)\<close>.\<close>

definition some :: "('a \<Rightarrow> bool) \<Rightarrow> 'a list \<Rightarrow> bool" where
  "some P xs = list_ex P xs"

section \<open>Data model (src/lib/types.ts)\<close>

text \<open>
  A parsed JSON document (the result of \<open>JSON.parse\<close>). The entries of an object are
  kept in the order in which the object lists them. A number is kept as an integer: the
  code only ever tests a number for being zero.
\<close>

datatype json =
    JNull
  | JBool bool
  | JNum int
  | JStr string
  | JArr "json list"
  | JObj "(string \<times> json) list"

record GitHubAccount =
  username :: string
  token :: string
  acc_id :: string

text \<open>
  \<open>updatedAt\<close> and \<open>createdAt\<close> hold what the service stored: the single-account service
  always stores a string, the multi-account service stores the remote value unchecked,
  which may be \<open>null\<close>.
\<close>

record Repository =
  repo_id :: nat
  repo_name :: string
  fullName :: string
  description :: "string option"
  language :: "string option"
  stars :: nat
  forks :: nat
  repo_size :: nat
  updatedAt :: "string option"
  createdAt :: "string option"
  is_private :: bool
  repo_url :: string
  account :: string
  repo_username :: string
  topics :: "string list"
  license :: "string option"
  defaultBranch :: string

record FileContent =
  fc_name :: string
  fc_path :: string
  fc_sha :: string
  fc_size :: nat
  fc_url :: string
  fc_content :: "string option"
  fc_encoding :: "string option"
  fc_type :: string

record ProjectStructure =
  files :: "FileContent list"
  directories :: "string list"
  languages :: "(string \<times> nat) list"
  packageJsons :: "json list"
  readmes :: "FileContent list"
  configs :: "FileContent list"

section \<open>The remote API and the JavaScript runtime\<close>

text \<open>
  What the hosting service answers. An entry of a directory listing, or the single
  object returned for a file path, is an \<open>item\<close>; \<open>getContent\<close> answers with an array
  of items or with one item.
\<close>

record api_error =
  status :: nat
  message :: string

record item =
  i_type :: string
  i_name :: string
  i_path :: string
  i_sha :: string
  i_size :: nat
  i_html_url :: "string option"
  i_content :: "string option"
  i_encoding :: "string option"

datatype contents = Listing "item list" | Single item

record raw_license =
  license_name :: "string option"

record raw_repo =
  r_id :: nat
  r_name :: string
  r_full_name :: string
  r_description :: "string option"
  r_language :: "string option"
  r_stargazers_count :: nat
  r_forks_count :: nat
  r_size :: nat
  r_updated_at :: "string option"
  r_created_at :: "string option"
  r_private :: bool
  r_html_url :: string
  r_topics :: "string list option"
  r_license :: "raw_license option"
  r_default_branch :: string

text \<open>
  The environment of a run: the two remote calls of an authenticated client (the client
  is identified by the token it was built with) and the runtime functions the code
  calls: \<open>Buffer.from(_, "base64").toString()\<close>, \<open>JSON.parse\<close> (which fails with
  \<open>None\<close>), \<open>JSON.stringify\<close>, \<open>Date.now()\<close> as read before and after the remote list
  call, \<open>new Date().toISOString()\<close>, \<open>new Date(s).getTime()\<close> and \<open>a.localeCompare(b)\<close>.
\<close>

record env =
  listForAuthenticatedUser :: "string \<Rightarrow> api_error + raw_repo list"
  getContent :: "string \<Rightarrow> string \<Rightarrow> string \<Rightarrow> string \<Rightarrow> api_error + contents"
  base64_decode :: "string \<Rightarrow> string"
  json_parse :: "string \<Rightarrow> json option"
  json_stringify :: "json \<Rightarrow> string"
  now_before :: int
  now_after :: int
  now_iso :: string
  date_getTime :: "string option \<Rightarrow> int"
  localeCompare :: "string \<Rightarrow> string \<Rightarrow> int"

text \<open>A JavaScript \<open>Error\<close> with its message.\<close>

datatype error = Error string

fun error_message :: "error \<Rightarrow> string" where
  "error_message (Error m) = m"

section \<open>Tree traversal (GitHubService.traverseRepository)\<close>

text \<open>
  What a traversal does besides filling the snapshot: every entry into
  \<open>traverseRepository\<close> (\<open>Call\<close>, with its path and \<open>currentDepth\<close>), every
  \<open>getContent\<close> request that lists a path (\<open>ListDir\<close>, with the \<open>currentDepth\<close> of the
  call that makes it), every \<open>getContent\<close> request for the content of a file
  (\<open>FetchFile\<close>) and every \<open>console.error\<close> line (\<open>LogError\<close>).
\<close>

datatype event =
    Call string nat
  | ListDir string nat
  | FetchFile string
  | LogError string

record tstate =
  snapshot :: ProjectStructure
  events :: "event list"

definition emit :: "event \<Rightarrow> tstate \<Rightarrow> tstate" where
  "emit e st = st\<lparr>events := events st @ [e]\<rparr>"

definition shouldFetchContent :: "string \<Rightarrow> bool" where
  "shouldFetchContent fileName =
     (let importantFiles =
        [''package.json'', ''tsconfig.json'', ''vite.config'', ''webpack.config'',
         ''readme.md'', ''readme.txt'', ''.env.example'', ''dockerfile'',
         ''docker-compose'', ''makefile'', ''cargo.toml'', ''go.mod'',
         ''requirements.txt'', ''pyproject.toml'', ''pom.xml'', ''build.gradle''];
          name = toLowerCase fileName
      in some (\<lambda>pattern. str_includes name pattern) importantFiles)"

definition isConfigFile :: "string \<Rightarrow> bool" where
  "isConfigFile fileName =
     (let configPatterns =
        [''tsconfig'', ''vite.config'', ''webpack.config'', ''rollup.config'',
         ''jest.config'', ''cypress.config'', ''tailwind.config'', ''next.config'',
         ''nuxt.config'', ''.eslintrc'', ''.prettierrc'', ''babel.config'']
      in some (\<lambda>pattern. str_includes fileName pattern) configPatterns)"

definition getFileExtension :: "string \<Rightarrow> string option" where
  "getFileExtension fileName =
     (let parts = split_on (CHR ''.'') fileName
      in if length parts > 1 then Some (toLowerCase (last parts)) else None)"

text \<open>\<open>languages[extension] = (languages[extension] || 0) + 1\<close>\<close>

fun bump :: "(string \<times> nat) list \<Rightarrow> string \<Rightarrow> (string \<times> nat) list" where
  "bump [] k = [(k, 1)]"
| "bump ((k', n) # rest) k =
     (if k' = k then (k', n + 1) # rest else (k', n) # bump rest k)"

text \<open>
  The body of the loop for an entry of type \<open>file\<close>, statement by statement: the
  content fetch for an important file, \<open>files.push\<close>, the three categories and the
  language count. A string is truthy when it is not empty, so an empty content counts
  as absent.
\<close>

definition truthy :: "string option \<Rightarrow> bool" where
  "truthy v = (case v of None \<Rightarrow> False | Some s \<Rightarrow> s \<noteq> [])"

definition fetch_content :: "env \<Rightarrow> string \<Rightarrow> string \<Rightarrow> string \<Rightarrow> item \<Rightarrow>
    FileContent \<Rightarrow> tstate \<Rightarrow> FileContent \<times> tstate" where
  "fetch_content e octokit owner repo it fileInfo st =
     (let st1 = emit (FetchFile (i_path it)) st
      in case getContent e octokit owner repo (i_path it) of
           Inl err \<Rightarrow>
             (fileInfo, emit (LogError (''Error fetching content for '' @ i_path it @ '':'')) st1)
         | Inr (Listing xs) \<Rightarrow> (fileInfo, st1)
         | Inr (Single fileData) \<Rightarrow>
             (if truthy (i_content fileData)
              then (fileInfo\<lparr>fc_content := Some (base64_decode e (the (i_content fileData))),
                              fc_encoding := i_encoding fileData\<rparr>, st1)
              else (fileInfo, st1)))"

definition new_file :: "item \<Rightarrow> FileContent" where
  "new_file it =
     \<lparr>fc_name = i_name it, fc_path = i_path it, fc_sha = i_sha it, fc_size = i_size it,
      fc_url = (case i_html_url it of None \<Rightarrow> [] | Some u \<Rightarrow> u),
      fc_content = None, fc_encoding = None, fc_type = ''file''\<rparr>"

definition push_file :: "FileContent \<Rightarrow> tstate \<Rightarrow> tstate" where
  "push_file fileInfo st =
     st\<lparr>snapshot := (snapshot st)\<lparr>files := files (snapshot st) @ [fileInfo]\<rparr>\<rparr>"

definition push_package_json :: "env \<Rightarrow> item \<Rightarrow> string \<Rightarrow> FileContent \<Rightarrow> tstate \<Rightarrow> tstate" where
  "push_package_json e it fileName fileInfo st =
     (if str_includes fileName ''package.json'' \<and> truthy (fc_content fileInfo)
      then (case json_parse e (the (fc_content fileInfo)) of
              Some pkg \<Rightarrow>
                st\<lparr>snapshot := (snapshot st)\<lparr>packageJsons := packageJsons (snapshot st) @ [pkg]\<rparr>\<rparr>
            | None \<Rightarrow>
                emit (LogError (''Error parsing package.json at '' @ i_path it @ '':'')) st)
      else st)"

definition push_readme :: "string \<Rightarrow> FileContent \<Rightarrow> tstate \<Rightarrow> tstate" where
  "push_readme fileName fileInfo st =
     (if str_includes fileName ''readme''
      then st\<lparr>snapshot := (snapshot st)\<lparr>readmes := readmes (snapshot st) @ [fileInfo]\<rparr>\<rparr>
      else st)"

definition push_config :: "string \<Rightarrow> FileContent \<Rightarrow> tstate \<Rightarrow> tstate" where
  "push_config fileName fileInfo st =
     (if isConfigFile fileName
      then st\<lparr>snapshot := (snapshot st)\<lparr>configs := configs (snapshot st) @ [fileInfo]\<rparr>\<rparr>
      else st)"

definition track_language :: "string \<Rightarrow> tstate \<Rightarrow> tstate" where
  "track_language name st =
     (case getFileExtension name of
        None \<Rightarrow> st
      | Some extension \<Rightarrow>
          (if extension \<noteq> []
           then st\<lparr>snapshot := (snapshot st)\<lparr>languages := bump (languages (snapshot st)) extension\<rparr>\<rparr>
           else st))"

definition fetch_if_important :: "env \<Rightarrow> string \<Rightarrow> string \<Rightarrow> string \<Rightarrow> item \<Rightarrow> tstate \<Rightarrow>
    FileContent \<times> tstate" where
  "fetch_if_important e octokit owner repo it st =
     (if shouldFetchContent (i_name it)
      then fetch_content e octokit owner repo it (new_file it) st
      else (new_file it, st))"

definition visit_file :: "env \<Rightarrow> string \<Rightarrow> string \<Rightarrow> string \<Rightarrow> item \<Rightarrow> tstate \<Rightarrow> tstate" where
  "visit_file e octokit owner repo it st =
     (let (fileInfo, st1) = fetch_if_important e octokit owner repo it st;
          st2 = push_file fileInfo st1;
          fileName = toLowerCase (i_name it);
          st3 = push_package_json e it fileName fileInfo st2;
          st4 = push_readme fileName fileInfo st3;
          st5 = push_config fileName fileInfo st4
      in track_language (i_name it) st5)"

definition push_directory :: "string \<Rightarrow> tstate \<Rightarrow> tstate" where
  "push_directory p st =
     st\<lparr>snapshot := (snapshot st)\<lparr>directories := directories (snapshot st) @ [p]\<rparr>\<rparr>"

definition items_of :: "contents \<Rightarrow> item list" where
  "items_of c = (case c of Listing xs \<Rightarrow> xs | Single x \<Rightarrow> [x])"

definition traverse_error_line :: "string \<Rightarrow> string \<Rightarrow> string \<Rightarrow> string" where
  "traverse_error_line owner repo path =
     ''Error traversing '' @ owner @ ''/'' @ repo @ (if path \<noteq> [] then ''/'' @ path else []) @ '':''"

function traverseRepository :: "env \<Rightarrow> string \<Rightarrow> string \<Rightarrow> string \<Rightarrow> string \<Rightarrow> tstate \<Rightarrow>
    nat \<Rightarrow> nat \<Rightarrow> tstate" where
  "traverseRepository e octokit owner repo path st maxDepth currentDepth =
     (if currentDepth > maxDepth then emit (Call path currentDepth) st
      else (case getContent e octokit owner repo path of
              Inl err \<Rightarrow>
                emit (LogError (traverse_error_line owner repo path))
                  (emit (ListDir path currentDepth) (emit (Call path currentDepth) st))
            | Inr cs \<Rightarrow>
                fold (\<lambda>it s.
                        if i_type it = ''dir''
                        then traverseRepository e octokit owner repo (i_path it)
                               (push_directory (i_path it) s) maxDepth (currentDepth + 1)
                        else if i_type it = ''file''
                        then visit_file e octokit owner repo it s
                        else s)
                  (items_of cs)
                  (emit (ListDir path currentDepth) (emit (Call path currentDepth) st))))"
  by pat_completeness auto
termination
  by (relation "measure (\<lambda>(e, octokit, owner, repo, path, st, maxDepth, currentDepth).
                   Suc maxDepth - currentDepth)") auto

declare traverseRepository.simps [simp del]


section \<open>The single-account service (GitHubService with setAccount)\<close>

text \<open>
  The client (\<open>octokit\<close>) is identified by the token it was built with. The cache maps a
  key to the stored list and the time it was stored.
\<close>

record service =
  currentAccount :: "GitHubAccount option"
  octokit :: "string option"
  cache :: "(string \<times> (Repository list \<times> int)) list"

definition CACHE_TTL :: int where
  "CACHE_TTL = 5 * 60 * 1000"

definition not_configured :: error where
  "not_configured = Error ''GitHub account not configured. Please set username and token.''"

definition setAccount :: "string \<Rightarrow> string \<Rightarrow> service \<Rightarrow> service" where
  "setAccount user tok s =
     s\<lparr>currentAccount := Some \<lparr>username = user, token = tok, acc_id = ''current''\<rparr>,
       octokit := Some tok,
       cache := []\<rparr>"

text \<open>The constructor: \<open>initializeFromEnvironment\<close> on a fresh instance.\<close>

definition new_service :: "string option \<Rightarrow> string option \<Rightarrow> service" where
  "new_service env_username env_token =
     (let s0 = \<lparr>currentAccount = None, octokit = None, cache = []\<rparr>
      in if truthy env_username \<and> truthy env_token
         then setAccount (the env_username) (the env_token) s0
         else s0)"

definition isConfigured :: "service \<Rightarrow> bool" where
  "isConfigured s = (currentAccount s \<noteq> None \<and> octokit s \<noteq> None)"

definition getAccounts :: "service \<Rightarrow> GitHubAccount list" where
  "getAccounts s = (case currentAccount s of Some a \<Rightarrow> [a] | None \<Rightarrow> [])"

definition or_else :: "string option \<Rightarrow> string \<Rightarrow> string" where
  "or_else v d = (if truthy v then the v else d)"

definition license_or_null :: "raw_license option \<Rightarrow> string option" where
  "license_or_null l =
     (case l of
        None \<Rightarrow> None
      | Some r \<Rightarrow> (if truthy (license_name r) then license_name r else None))"

definition to_repository :: "env \<Rightarrow> GitHubAccount \<Rightarrow> raw_repo \<Rightarrow> Repository" where
  "to_repository e acc repo =
     \<lparr>repo_id = r_id repo, repo_name = r_name repo, fullName = r_full_name repo,
      description = r_description repo, language = r_language repo,
      stars = r_stargazers_count repo, forks = r_forks_count repo, repo_size = r_size repo,
      updatedAt = Some (or_else (r_updated_at repo) (now_iso e)),
      createdAt = Some (or_else (r_created_at repo) (now_iso e)),
      is_private = r_private repo, repo_url = r_html_url repo,
      account = acc_id acc, repo_username = username acc,
      topics = (case r_topics repo of None \<Rightarrow> [] | Some ts \<Rightarrow> ts),
      license = license_or_null (r_license repo),
      defaultBranch = r_default_branch repo\<rparr>"

text \<open>A fresh cache entry for \<open>key\<close>, as the read path of the list operation tests it.\<close>

definition cache_hit :: "(string \<times> (Repository list \<times> int)) list \<Rightarrow> string \<Rightarrow> int \<Rightarrow>
    Repository list option" where
  "cache_hit c key now =
     (case map_of c key of
        None \<Rightarrow> None
      | Some (d, timestamp) \<Rightarrow> (if now - timestamp < CACHE_TTL then Some d else None))"

text \<open>
  \<open>getAllRepositories\<close> returns what the promise settles with (\<open>Inl\<close>: rejected) and the
  service afterwards.
\<close>

definition getAllRepositories :: "env \<Rightarrow> service \<Rightarrow> bool \<Rightarrow> (error + Repository list) \<times> service" where
  "getAllRepositories e s forceRefresh =
     (if \<not> isConfigured s then (Inl not_configured, s)
      else (case (if forceRefresh then None else cache_hit (cache s) ''all_repositories'' (now_before e)) of
              Some d \<Rightarrow> (Inr d, s)
            | None \<Rightarrow>
                (case listForAuthenticatedUser e (the (octokit s)) of
                   Inr repos \<Rightarrow>
                     (let allRepos = map (to_repository e (the (currentAccount s))) repos
                      in (Inr allRepos,
                          s\<lparr>cache := AList.update ''all_repositories'' (allRepos, now_after e) (cache s)\<rparr>))
                 | Inl err \<Rightarrow>
                     (Inl (Error (''Failed to fetch repositories: '' @ message err)), s))))"

definition empty_structure :: ProjectStructure where
  "empty_structure =
     \<lparr>files = [], directories = [], languages = [], packageJsons = [], readmes = [], configs = []\<rparr>"

text \<open>
  \<open>getRepositoryStructure\<close> calls the traversal without \<open>maxDepth\<close> and \<open>currentDepth\<close>, so
  with their defaults 3 and 0. \<open>getRepositoryStructure_run\<close> is the same call with the
  events of the traversal kept.
\<close>

definition getRepositoryStructure_run :: "env \<Rightarrow> service \<Rightarrow> string \<Rightarrow> string \<Rightarrow> error + tstate" where
  "getRepositoryStructure_run e s owner repo =
     (if \<not> isConfigured s then Inl not_configured
      else Inr (traverseRepository e (the (octokit s)) owner repo []
                  \<lparr>snapshot = empty_structure, events = []\<rparr> 3 0))"

definition getRepositoryStructure :: "env \<Rightarrow> service \<Rightarrow> string \<Rightarrow> string \<Rightarrow> error + ProjectStructure" where
  "getRepositoryStructure e s owner repo =
     (case getRepositoryStructure_run e s owner repo of
        Inl err \<Rightarrow> Inl err
      | Inr st \<Rightarrow> Inr (snapshot st))"

section \<open>The multi-account service (src/lib/github-service.ts)\<close>

text \<open>
  The accounts map, in insertion order: account id, account, and the client built from
  the account's token.
\<close>

record multi_service =
  accounts :: "(string \<times> GitHubAccount) list"
  m_cache :: "(string \<times> (Repository list \<times> int)) list"

definition to_repository_multi :: "string \<Rightarrow> GitHubAccount \<Rightarrow> raw_repo \<Rightarrow> Repository" where
  "to_repository_multi accountId acc repo =
     \<lparr>repo_id = r_id repo, repo_name = r_name repo, fullName = r_full_name repo,
      description = r_description repo, language = r_language repo,
      stars = r_stargazers_count repo, forks = r_forks_count repo, repo_size = r_size repo,
      updatedAt = r_updated_at repo,
      createdAt = r_created_at repo,
      is_private = r_private repo, repo_url = r_html_url repo,
      account = accountId, repo_username = username acc,
      topics = (case r_topics repo of None \<Rightarrow> [] | Some ts \<Rightarrow> ts),
      license = license_or_null (r_license repo),
      defaultBranch = r_default_branch repo\<rparr>"

text \<open>
  One iteration of the loop over the accounts: a failed list call is caught and logged
  (\<open>// Continue with other accounts even if one fails\<close>) and adds nothing.
\<close>

definition fetch_account :: "env \<Rightarrow> string \<times> GitHubAccount \<Rightarrow> Repository list \<Rightarrow> Repository list" where
  "fetch_account e entry allRepos =
     (case listForAuthenticatedUser e (token (snd entry)) of
        Inr repos \<Rightarrow> allRepos @ map (to_repository_multi (fst entry) (snd entry)) repos
      | Inl err \<Rightarrow> allRepos)"

definition getAllRepositories_multi :: "env \<Rightarrow> multi_service \<Rightarrow> bool \<Rightarrow>
    (error + Repository list) \<times> multi_service" where
  "getAllRepositories_multi e s forceRefresh =
     (case (if forceRefresh then None else cache_hit (m_cache s) ''all_repositories'' (now_before e)) of
        Some d \<Rightarrow> (Inr d, s)
      | None \<Rightarrow>
          (let allRepos = fold (fetch_account e) (accounts s) []
           in (Inr allRepos,
               s\<lparr>m_cache := AList.update ''all_repositories'' (allRepos, now_after e) (m_cache s)\<rparr>)))"

section \<open>Parsed manifests as JavaScript values\<close>

text \<open>
  \<open>get_prop pkg k\<close> is the property read \<open>pkg.k\<close> for the manifest properties the code
  reads (\<open>dependencies\<close>, \<open>devDependencies\<close>, \<open>name\<close>, \<open>version\<close>): a \<open>TypeError\<close> on
  \<open>null\<close>, \<open>undefined\<close> (\<open>None\<close>) on a value that has no such property.
\<close>

definition get_prop :: "json \<Rightarrow> string \<Rightarrow> error + json option" where
  "get_prop pkg k =
     (case pkg of
        JNull \<Rightarrow>
          Inl (Error (''Cannot read properties of null (reading '' @ [CHR 0x27] @ k @ [CHR 0x27] @ '')''))
      | JObj kvs \<Rightarrow> Inr (map_of kvs k)
      | _ \<Rightarrow> Inr None)"

fun show_nat :: "nat \<Rightarrow> string" where
  "show_nat n =
     (if n < 10 then [''0123456789'' ! n]
      else show_nat (n div 10) @ [''0123456789'' ! (n mod 10)])"

text \<open>
  The own enumerable properties of a value, which an object spread copies and
  \<open>Object.keys\<close> lists: the entries of an object, the indexed elements of an array, the
  indexed characters of a string, nothing for the other values.
\<close>

definition own_entries :: "json option \<Rightarrow> (string \<times> json) list" where
  "own_entries v =
     (case v of
        Some (JObj kvs) \<Rightarrow> kvs
      | Some (JArr xs) \<Rightarrow> zip (map show_nat [0..<length xs]) xs
      | Some (JStr cs) \<Rightarrow> zip (map show_nat [0..<length cs]) (map (\<lambda>c. JStr [c]) cs)
      | _ \<Rightarrow> [])"

text \<open>
  \<open>{ ...a, ...b }\<close>: a key of \<open>a\<close> keeps its place, a new key of \<open>b\<close> is added behind.
  (JavaScript lists keys that are array indices first; every test the code makes on a
  key requires a letter in it, so the place of such keys is never observed.)
\<close>

definition spread2 :: "json option \<Rightarrow> json option \<Rightarrow> (string \<times> json) list" where
  "spread2 a b = fold (\<lambda>(k, v) acc. AList.update k v acc) (own_entries a @ own_entries b) []"

text \<open>\<open>{ ...pkg.dependencies, ...pkg.devDependencies }\<close>\<close>

definition all_deps :: "json \<Rightarrow> error + (string \<times> json) list" where
  "all_deps pkg =
     (case get_prop pkg ''dependencies'' of
        Inl err \<Rightarrow> Inl err
      | Inr d \<Rightarrow>
          (case get_prop pkg ''devDependencies'' of
             Inl err \<Rightarrow> Inl err
           | Inr dd \<Rightarrow> Inr (spread2 d dd)))"

definition js_truthy :: "json option \<Rightarrow> bool" where
  "js_truthy v =
     (case v of
        None \<Rightarrow> False
      | Some JNull \<Rightarrow> False
      | Some (JBool b) \<Rightarrow> b
      | Some (JNum n) \<Rightarrow> n \<noteq> 0
      | Some (JStr cs) \<Rightarrow> cs \<noteq> []
      | Some _ \<Rightarrow> True)"

text \<open>\<open>Object.keys(v || {})\<close>\<close>

definition keys_or_empty :: "json option \<Rightarrow> string list" where
  "keys_or_empty v = (if js_truthy v then map fst (own_entries v) else [])"

text \<open>\<open>forEach\<close> with a body that may throw: the first exception ends the loop.\<close>

fun forEach_err :: "('a \<Rightarrow> 's \<Rightarrow> error + 's) \<Rightarrow> 'a list \<Rightarrow> 's \<Rightarrow> error + 's" where
  "forEach_err f [] s = Inr s"
| "forEach_err f (x # xs) s =
     (case f x s of Inl err \<Rightarrow> Inl err | Inr s' \<Rightarrow> forEach_err f xs s')"

text \<open>A \<open>Set\<close> of strings in insertion order, as \<open>Array.from\<close> lists it.\<close>

definition add :: "string \<Rightarrow> string list \<Rightarrow> string list" where
  "add x xs = (if x \<in> set xs then xs else xs @ [x])"

text \<open>A run of independent \<open>if (test) set.add(label)\<close> statements, in source order.\<close>

definition add_matching :: "(('a \<Rightarrow> bool) \<times> string) list \<Rightarrow> 'a \<Rightarrow> string list \<Rightarrow> string list" where
  "add_matching rules x acc = fold (\<lambda>(test, label) acc. if test x then add label acc else acc) rules acc"

definition for_each_dep :: "((string \<Rightarrow> bool) \<times> string) list \<Rightarrow> json list \<Rightarrow> string list \<Rightarrow>
    error + string list" where
  "for_each_dep rules pkgs acc =
     forEach_err (\<lambda>pkg acc.
        case all_deps pkg of
          Inl err \<Rightarrow> Inl err
        | Inr deps \<Rightarrow> Inr (fold (add_matching rules) (map fst deps) acc)) pkgs acc"

section \<open>The heuristic classifier (src/lib/code-analyzer.ts)\<close>

record CodebaseAnalysis =
  ca_repository :: Repository
  ca_structure :: ProjectStructure
  frameworks :: "string list"
  technologies :: "string list"
  patterns :: "string list"
  complexity :: string
  mainPurpose :: string
  keyFeatures :: "string list"

definition framework_rules :: "((string \<Rightarrow> bool) \<times> string) list" where
  "framework_rules =
     [(\<lambda>dep. dep = ''react'', ''React''),
      (\<lambda>dep. dep = ''next'', ''Next.js''),
      (\<lambda>dep. dep = ''gatsby'', ''Gatsby''),
      (\<lambda>dep. dep = ''vue'', ''Vue.js''),
      (\<lambda>dep. dep = ''nuxt'', ''Nuxt.js''),
      (\<lambda>dep. startsWith dep ''@angular/'', ''Angular''),
      (\<lambda>dep. dep = ''express'', ''Express.js''),
      (\<lambda>dep. dep = ''fastify'', ''Fastify''),
      (\<lambda>dep. dep = ''koa'', ''Koa''),
      (\<lambda>dep. dep = ''nestjs'', ''NestJS''),
      (\<lambda>dep. dep = ''svelte'', ''Svelte''),
      (\<lambda>dep. dep = ''remix'', ''Remix'')]"

definition detectFrameworks :: "ProjectStructure \<Rightarrow> error + string list" where
  "detectFrameworks st =
     (case for_each_dep framework_rules (packageJsons st) [] of
        Inl err \<Rightarrow> Inl err
      | Inr fws \<Rightarrow>
          (let hasComponents =
                 some (\<lambda>dir. str_includes dir ''components'' \<or> str_includes dir ''component'')
                   (directories st);
               hasPages =
                 some (\<lambda>dir. str_includes dir ''pages'' \<or> str_includes dir ''page'')
                   (directories st)
           in if hasComponents \<and> hasPages \<and> fws = []
              then Inr (add ''Custom Framework'' fws)
              else Inr fws))"

definition extension_technology :: "string \<Rightarrow> string option" where
  "extension_technology ext =
     map_of
       [(''ts'', ''TypeScript''), (''js'', ''JavaScript''), (''jsx'', ''JSX''), (''tsx'', ''TSX''),
        (''py'', ''Python''), (''rs'', ''Rust''), (''go'', ''Go''), (''java'', ''Java''),
        (''cpp'', ''C++''), (''cc'', ''C++''), (''cxx'', ''C++''), (''c'', ''C''),
        (''rb'', ''Ruby''), (''php'', ''PHP''), (''swift'', ''Swift''), (''kt'', ''Kotlin''),
        (''dart'', ''Dart''), (''css'', ''CSS''), (''scss'', ''SCSS''), (''sass'', ''Sass''),
        (''less'', ''Less'')] ext"

definition technology_rules :: "((string \<Rightarrow> bool) \<times> string) list" where
  "technology_rules =
     [(\<lambda>dep. str_includes dep ''tailwind'', ''Tailwind CSS''),
      (\<lambda>dep. str_includes dep ''styled-components'', ''Styled Components''),
      (\<lambda>dep. str_includes dep ''emotion'', ''Emotion''),
      (\<lambda>dep. str_includes dep ''prisma'', ''Prisma''),
      (\<lambda>dep. str_includes dep ''mongoose'', ''MongoDB''),
      (\<lambda>dep. str_includes dep ''postgres'' \<or> str_includes dep ''pg'', ''PostgreSQL''),
      (\<lambda>dep. str_includes dep ''mysql'', ''MySQL''),
      (\<lambda>dep. str_includes dep ''redis'', ''Redis''),
      (\<lambda>dep. str_includes dep ''graphql'', ''GraphQL''),
      (\<lambda>dep. str_includes dep ''apollo'', ''Apollo''),
      (\<lambda>dep. str_includes dep ''stripe'', ''Stripe''),
      (\<lambda>dep. str_includes dep ''auth0'', ''Auth0''),
      (\<lambda>dep. str_includes dep ''firebase'', ''Firebase''),
      (\<lambda>dep. str_includes dep ''aws-sdk'', ''AWS'')]"

definition detectTechnologies :: "ProjectStructure \<Rightarrow> error + string list" where
  "detectTechnologies st =
     (let fromExtensions =
            fold (\<lambda>ext acc. case extension_technology ext of
                               Some t \<Rightarrow> add t acc
                             | None \<Rightarrow> acc)
              (map fst (languages st)) []
      in for_each_dep technology_rules (packageJsons st) fromExtensions)"

definition directory_pattern_rules :: "((string list \<Rightarrow> bool) \<times> string) list" where
  "directory_pattern_rules =
     [(some (\<lambda>d. str_includes d ''components''), ''Component Architecture''),
      (some (\<lambda>d. str_includes d ''hooks''), ''Custom Hooks''),
      (some (\<lambda>d. str_includes d ''context''), ''Context API''),
      (some (\<lambda>d. str_includes d ''store'' \<or> str_includes d ''redux''), ''State Management''),
      (some (\<lambda>d. str_includes d ''middleware''), ''Middleware Pattern''),
      (some (\<lambda>d. str_includes d ''controllers''), ''MVC Pattern''),
      (some (\<lambda>d. str_includes d ''services''), ''Service Layer''),
      (some (\<lambda>d. str_includes d ''utils'' \<or> str_includes d ''helpers''), ''Utility Functions''),
      (some (\<lambda>d. str_includes d ''types''), ''Type Definitions'')]"

definition file_pattern_rules :: "((string list \<Rightarrow> bool) \<times> string) list" where
  "file_pattern_rules =
     [(some (\<lambda>f. str_includes f ''test'' \<or> str_includes f ''spec''), ''Unit Testing''),
      (some (\<lambda>f. str_includes f ''e2e''), ''E2E Testing''),
      (some (\<lambda>f. str_includes f ''docker''), ''Containerization''),
      (some (\<lambda>f. str_includes f ''ci'' \<or> str_includes f ''.yml''), ''CI/CD'')]"

definition detectPatterns :: "ProjectStructure \<Rightarrow> string list" where
  "detectPatterns st =
     (let dirs = map toLowerCase (directories st);
          fs = map (\<lambda>f. toLowerCase (fc_name f)) (files st)
      in add_matching file_pattern_rules fs (add_matching directory_pattern_rules dirs []))"

definition assessComplexity :: "ProjectStructure \<Rightarrow> string" where
  "assessComplexity st =
     (let fileCount = length (files st);
          dirCount = length (directories st);
          langCount = length (map fst (languages st));
          packageCount = length (packageJsons st);
          score0 = (0::nat);
          score1 = (if fileCount > 50 then score0 + 2 else if fileCount > 20 then score0 + 1 else score0);
          score2 = (if dirCount > 20 then score1 + 2 else if dirCount > 10 then score1 + 1 else score1);
          score3 = (if langCount > 3 then score2 + 1 else score2);
          score = (if packageCount > 1 then score3 + 1 else score3)
      in if score \<ge> 4 then ''high''
         else if score \<ge> 2 then ''medium''
         else ''low'')"

definition inferMainPurpose :: "Repository \<Rightarrow> ProjectStructure \<Rightarrow> string" where
  "inferMainPurpose repository st =
     (let name = toLowerCase (repo_name repository);
          desc = toLowerCase (case description repository of None \<Rightarrow> [] | Some d \<Rightarrow> d);
          dirs = map toLowerCase (directories st);
          hasPackageJson = (length (packageJsons st) > 0)
      in if some (\<lambda>d. str_includes d ''components'' \<or> str_includes d ''pages'') dirs
         then ''Web Application''
         else if some (\<lambda>d. str_includes d ''routes'' \<or> str_includes d ''controllers''
                            \<or> str_includes d ''api'') dirs
         then ''API Server''
         else if hasPackageJson \<and> (str_includes name ''lib'' \<or> str_includes desc ''library'')
         then ''Library/Package''
         else if some (\<lambda>d. str_includes d ''cli'' \<or> str_includes d ''bin'') dirs
         then ''CLI Tool''
         else if some (\<lambda>d. str_includes d ''android'' \<or> str_includes d ''ios'') dirs
         then ''Mobile Application''
         else (let langs = map fst (languages st)
               in if ''html'' \<in> set langs \<or> ''css'' \<in> set langs
                  then ''Website''
                  else ''Software Project''))"

definition feature_rules :: "((string \<Rightarrow> bool) \<times> string) list" where
  "feature_rules =
     [(\<lambda>dep. str_includes dep ''auth'', ''Authentication''),
      (\<lambda>dep. str_includes dep ''payment'' \<or> str_includes dep ''stripe'', ''Payment Processing''),
      (\<lambda>dep. str_includes dep ''upload'', ''File Upload''),
      (\<lambda>dep. str_includes dep ''email'', ''Email Integration''),
      (\<lambda>dep. str_includes dep ''chart'' \<or> str_includes dep ''graph'', ''Data Visualization''),
      (\<lambda>dep. str_includes dep ''map'', ''Maps Integration''),
      (\<lambda>dep. str_includes dep ''socket'', ''Real-time Communication''),
      (\<lambda>dep. str_includes dep ''test'', ''Testing Suite''),
      (\<lambda>dep. str_includes dep ''deploy'', ''Deployment Tools'')]"

definition directory_feature_rules :: "((string list \<Rightarrow> bool) \<times> string) list" where
  "directory_feature_rules =
     [(some (\<lambda>d. str_includes d ''admin''), ''Admin Panel''),
      (some (\<lambda>d. str_includes d ''dashboard''), ''Dashboard''),
      (some (\<lambda>d. str_includes d ''blog''), ''Blog System''),
      (some (\<lambda>d. str_includes d ''shop'' \<or> str_includes d ''cart''), ''E-commerce''),
      (some (\<lambda>d. str_includes d ''chat''), ''Chat System'')]"

definition extractKeyFeatures :: "ProjectStructure \<Rightarrow> error + string list" where
  "extractKeyFeatures st =
     (case for_each_dep feature_rules (packageJsons st) [] of
        Inl err \<Rightarrow> Inl err
      | Inr features \<Rightarrow>
          Inr (add_matching directory_feature_rules (map toLowerCase (directories st)) features))"

definition analyzeCodebase :: "Repository \<Rightarrow> ProjectStructure \<Rightarrow> error + CodebaseAnalysis" where
  "analyzeCodebase repository st =
     (case detectFrameworks st of
        Inl err \<Rightarrow> Inl err
      | Inr fws \<Rightarrow>
          (case detectTechnologies st of
             Inl err \<Rightarrow> Inl err
           | Inr techs \<Rightarrow>
               (let pats = detectPatterns st;
                    cx = assessComplexity st;
                    purpose = inferMainPurpose repository st
                in case extractKeyFeatures st of
                     Inl err \<Rightarrow> Inl err
                   | Inr feats \<Rightarrow>
                       Inr \<lparr>ca_repository = repository, ca_structure = st, frameworks = fws,
                            technologies = techs, patterns = pats, complexity = cx,
                            mainPurpose = purpose, keyFeatures = feats\<rparr>)))"

section \<open>The analyze_codebase tool (src/mastra/tools/github-analyzer.ts)\<close>

text \<open>
  The tools share one service instance; \<open>execute\<close> returns what its promise settles with
  and the service afterwards. The input schema admits \<open>maxDepth\<close> from 1 to 5.
\<close>

record analyze_context =
  ac_owner :: string
  ac_repo :: string
  ac_maxDepth :: nat

record repository_summary =
  rs_name :: string
  rs_fullName :: string
  rs_description :: "string option"
  rs_language :: "string option"
  rs_stars :: nat
  rs_forks :: nat
  rs_size :: nat
  rs_topics :: "string list"
  rs_private :: bool

record analysis_summary =
  as_mainPurpose :: string
  as_complexity :: string
  as_frameworks :: "string list"
  as_technologies :: "string list"
  as_patterns :: "string list"
  as_keyFeatures :: "string list"

record package_manager =
  pm_name :: "json option"
  pm_version :: "json option"
  pm_dependencies :: "string list"
  pm_devDependencies :: "string list"

record structure_summary =
  fileCount :: nat
  directoryCount :: nat
  ss_languages :: "(string \<times> nat) list"
  hasConfigs :: bool
  packageManagers :: "package_manager list"

record insights =
  isWellStructured :: bool
  hasTests :: bool
  hasDocumentation :: bool
  modernStack :: bool

record analyze_output =
  ao_repository :: repository_summary
  ao_analysis :: analysis_summary
  ao_structure :: structure_summary
  ao_insights :: insights

definition analyze_input_ok :: "analyze_context \<Rightarrow> bool" where
  "analyze_input_ok ctx = (1 \<le> ac_maxDepth ctx \<and> ac_maxDepth ctx \<le> 5)"

definition not_found :: "string \<Rightarrow> string \<Rightarrow> error" where
  "not_found owner repo =
     Error (''Repository '' @ owner @ ''/'' @ repo @ '' not found or not accessible'')"

definition find_repository :: "string \<Rightarrow> string \<Rightarrow> Repository list \<Rightarrow> Repository option" where
  "find_repository owner repo repos =
     find (\<lambda>r. repo_name r = repo \<and> repo_username r = owner) repos"

definition to_package_manager :: "json \<Rightarrow> error + package_manager" where
  "to_package_manager pkg =
     (case get_prop pkg ''name'' of
        Inl err \<Rightarrow> Inl err
      | Inr n \<Rightarrow>
          (case get_prop pkg ''version'' of
             Inl err \<Rightarrow> Inl err
           | Inr v \<Rightarrow>
               (case get_prop pkg ''dependencies'' of
                  Inl err \<Rightarrow> Inl err
                | Inr d \<Rightarrow>
                    (case get_prop pkg ''devDependencies'' of
                       Inl err \<Rightarrow> Inl err
                     | Inr dd \<Rightarrow>
                         Inr \<lparr>pm_name = n, pm_version = v,
                              pm_dependencies = keys_or_empty d,
                              pm_devDependencies = keys_or_empty dd\<rparr>))))"

definition analyze_result :: "CodebaseAnalysis \<Rightarrow> error + analyze_output" where
  "analyze_result analysis =
     (case forEach_err (\<lambda>pkg acc. case to_package_manager pkg of
                                     Inl err \<Rightarrow> Inl err
                                   | Inr pm \<Rightarrow> Inr (acc @ [pm]))
             (packageJsons (ca_structure analysis)) [] of
        Inl err \<Rightarrow> Inl err
      | Inr pms \<Rightarrow>
          Inr \<lparr>ao_repository =
                 \<lparr>rs_name = repo_name (ca_repository analysis),
                  rs_fullName = fullName (ca_repository analysis),
                  rs_description = description (ca_repository analysis),
                  rs_language = language (ca_repository analysis),
                  rs_stars = stars (ca_repository analysis),
                  rs_forks = forks (ca_repository analysis),
                  rs_size = repo_size (ca_repository analysis),
                  rs_topics = topics (ca_repository analysis),
                  rs_private = is_private (ca_repository analysis)\<rparr>,
               ao_analysis =
                 \<lparr>as_mainPurpose = mainPurpose analysis,
                  as_complexity = complexity analysis,
                  as_frameworks = frameworks analysis,
                  as_technologies = technologies analysis,
                  as_patterns = patterns analysis,
                  as_keyFeatures = keyFeatures analysis\<rparr>,
               ao_structure =
                 \<lparr>fileCount = length (files (ca_structure analysis)),
                  directoryCount = length (directories (ca_structure analysis)),
                  ss_languages = languages (ca_structure analysis),
                  hasConfigs = (length (configs (ca_structure analysis)) > 0),
                  packageManagers = pms\<rparr>,
               ao_insights =
                 \<lparr>isWellStructured = (length (directories (ca_structure analysis)) > 3),
                  hasTests = (''Unit Testing'' \<in> set (patterns analysis)),
                  hasDocumentation = (length (readmes (ca_structure analysis)) > 0),
                  modernStack = (''TypeScript'' \<in> set (technologies analysis))\<rparr>\<rparr>)"

definition analyze_failed :: "error \<Rightarrow> error" where
  "analyze_failed err = Error (''Failed to analyze codebase: '' @ error_message err)"

definition analyzeCodebaseTool_execute :: "env \<Rightarrow> service \<Rightarrow> analyze_context \<Rightarrow>
    (error + analyze_output) \<times> service" where
  "analyzeCodebaseTool_execute e svc ctx =
     (let owner = ac_owner ctx; repo = ac_repo ctx; maxDepth = ac_maxDepth ctx;
          (fetched, svc1) = getAllRepositories e svc False
      in case fetched of
           Inl err \<Rightarrow> (Inl (analyze_failed err), svc1)
         | Inr repos \<Rightarrow>
             (case find_repository owner repo repos of
                None \<Rightarrow> (Inl (analyze_failed (not_found owner repo)), svc1)
              | Some repository \<Rightarrow>
                  (case getRepositoryStructure e svc1 owner repo of
                     Inl err \<Rightarrow> (Inl (analyze_failed err), svc1)
                   | Inr st \<Rightarrow>
                       (case analyzeCodebase repository st of
                          Inl err \<Rightarrow> (Inl (analyze_failed err), svc1)
                        | Inr analysis \<Rightarrow>
                            (case analyze_result analysis of
                               Inl err \<Rightarrow> (Inl (analyze_failed err), svc1)
                             | Inr out \<Rightarrow> (Inr out, svc1))))))"

section \<open>The list_repositories tool (src/mastra/tools/github-repository.ts)\<close>

record list_context =
  lc_language :: "string option"
  lc_sortBy :: string
  lc_limit :: nat
  lc_includePrivate :: bool

record account_summary =
  as_id :: string
  as_username :: string

record list_output =
  lo_repositories :: "Repository list"
  lo_total :: nat
  lo_accounts :: "account_summary list"

text \<open>The comparator handed to \<open>sort\<close>.\<close>

definition compare_repositories :: "env \<Rightarrow> string \<Rightarrow> Repository \<Rightarrow> Repository \<Rightarrow> int" where
  "compare_repositories e sortBy a b =
     (if sortBy = ''updated'' then date_getTime e (updatedAt b) - date_getTime e (updatedAt a)
      else if sortBy = ''created'' then date_getTime e (createdAt b) - date_getTime e (createdAt a)
      else if sortBy = ''name'' then localeCompare e (repo_name a) (repo_name b)
      else 0)"

text \<open>
  \<open>Array.prototype.sort\<close> is stable: an element stays behind the earlier elements it does
  not compare below. \<open>sort_by\<close> inserts the elements one by one, from the left.
\<close>

fun insert_by :: "('a \<Rightarrow> 'a \<Rightarrow> int) \<Rightarrow> 'a \<Rightarrow> 'a list \<Rightarrow> 'a list" where
  "insert_by cmp x [] = [x]"
| "insert_by cmp x (y # ys) = (if cmp x y < 0 then x # y # ys else y # insert_by cmp x ys)"

definition sort_by :: "('a \<Rightarrow> 'a \<Rightarrow> int) \<Rightarrow> 'a list \<Rightarrow> 'a list" where
  "sort_by cmp xs = fold (insert_by cmp) xs []"

definition language_matches :: "string \<Rightarrow> Repository \<Rightarrow> bool" where
  "language_matches lang r =
     (case language r of None \<Rightarrow> False | Some l \<Rightarrow> toLowerCase l = toLowerCase lang)"

definition filter_repositories :: "list_context \<Rightarrow> Repository list \<Rightarrow> Repository list" where
  "filter_repositories ctx repos =
     (let filteredRepos = filter (\<lambda>r. lc_includePrivate ctx \<or> \<not> is_private r) repos
      in if truthy (lc_language ctx)
         then filter (language_matches (the (lc_language ctx))) filteredRepos
         else filteredRepos)"

definition list_failed :: "error \<Rightarrow> error" where
  "list_failed err = Error (''Failed to list repositories: '' @ error_message err)"

definition listRepositoriesTool_execute :: "env \<Rightarrow> service \<Rightarrow> list_context \<Rightarrow>
    (error + list_output) \<times> service" where
  "listRepositoriesTool_execute e svc ctx =
     (let (fetched, svc1) = getAllRepositories e svc False
      in case fetched of
           Inl err \<Rightarrow> (Inl (list_failed err), svc1)
         | Inr repos \<Rightarrow>
             (let filteredRepos =
                    sort_by (compare_repositories e (lc_sortBy ctx)) (filter_repositories ctx repos)
              in (Inr \<lparr>lo_repositories = take (lc_limit ctx) filteredRepos,
                       lo_total = length filteredRepos,
                       lo_accounts = map (\<lambda>acc. \<lparr>as_id = acc_id acc, as_username = username acc\<rparr>)
                                       (getAccounts svc1)\<rparr>,
                  svc1)))"

section \<open>The security_scan tool (src/mastra/tools/github-security.ts)\<close>

record SecurityIssue =
  si_type :: string
  severity :: string
  si_description :: string
  si_file :: "string option"
  recommendation :: string

record scan_context =
  sc_owner :: string
  sc_repo :: string
  sc_scanType :: string

record severity_counts =
  critical :: nat
  high :: nat
  medium :: nat
  low :: nat

record security_analysis =
  score :: int
  totalIssues :: nat
  issuesBySeverity :: severity_counts
  issues :: "SecurityIssue list"

record repository_ref =
  rr_name :: string
  rr_fullName :: string
  rr_url :: string

text \<open>
  The result of a scan, without its \<open>recommendations\<close> (fixed texts chosen by the issue
  types present) and its \<open>scanDate\<close>.
\<close>

record scan_output =
  so_repository :: repository_ref
  securityAnalysis :: security_analysis
  so_scanType :: string

definition is_sensitive_file :: "FileContent \<Rightarrow> bool" where
  "is_sensitive_file file =
     (str_includes (fc_name file) ''.env'' \<or> str_includes (fc_name file) ''secret''
      \<or> str_includes (fc_name file) ''key'' \<or> str_includes (fc_name file) ''password''
      \<or> str_includes (fc_name file) ''token'')"

definition sensitive_file_issue :: "FileContent \<Rightarrow> SecurityIssue" where
  "sensitive_file_issue file =
     \<lparr>si_type = ''sensitive_file'', severity = ''high'',
      si_description = ''Potentially sensitive file found: '' @ fc_name file,
      si_file = Some (fc_path file),
      recommendation =
        ''Ensure sensitive files are in .gitignore and never committed to version control''\<rparr>"

definition hardcoded_secret_issues :: "env \<Rightarrow> json \<Rightarrow> SecurityIssue list" where
  "hardcoded_secret_issues e pkg =
     (let pkgStr = json_stringify e pkg
      in if str_includes pkgStr ''password'' \<or> str_includes pkgStr ''secret''
            \<or> str_includes pkgStr ''token''
         then [\<lparr>si_type = ''hardcoded_secret'', severity = ''critical'',
                 si_description = ''Potential hardcoded secrets found in package.json'',
                 si_file = None,
                 recommendation = ''Use environment variables for sensitive configuration''\<rparr>]
         else [])"

definition missing_security_config_issues :: "ProjectStructure \<Rightarrow> SecurityIssue list" where
  "missing_security_config_issues st =
     (let hasSecurityConfig =
            some (\<lambda>file. str_includes (fc_name file) ''security''
                          \<or> str_includes (fc_name file) ''.security''
                          \<or> str_includes (fc_name file) ''csp'') (files st)
      in if \<not> hasSecurityConfig
         then [\<lparr>si_type = ''missing_security_config'', severity = ''medium'',
                 si_description = ''No security configuration files found'',
                 si_file = None,
                 recommendation =
                   ''Add security headers, CSP policies, and other security configurations''\<rparr>]
         else [])"

definition is_outdated :: "string \<times> json \<Rightarrow> bool" where
  "is_outdated entry =
     (case snd entry of
        JStr version \<Rightarrow> str_includes version ''^'' \<and> str_includes (fst entry) ''old''
      | _ \<Rightarrow> False)"

definition outdated_dependency_issues :: "json \<Rightarrow> error + SecurityIssue list" where
  "outdated_dependency_issues pkg =
     (case all_deps pkg of
        Inl err \<Rightarrow> Inl err
      | Inr deps \<Rightarrow>
          (let outdatedDeps = map fst (filter is_outdated deps)
           in if length outdatedDeps > 0
              then Inr [\<lparr>si_type = ''outdated_dependencies'', severity = ''medium'',
                         si_description =
                           ''Potentially outdated dependencies: '' @ join '', '' outdatedDeps,
                         si_file = None,
                         recommendation =
                           ''Update dependencies to latest secure versions and run vulnerability scans''\<rparr>]
              else Inr []))"

definition missing_https_issues :: "ProjectStructure \<Rightarrow> SecurityIssue list" where
  "missing_https_issues st =
     (let hasHttpsConfig =
            some (\<lambda>file. truthy (fc_content file)
                          \<and> (str_includes (the (fc_content file)) ''https://''
                             \<or> str_includes (the (fc_content file)) ''secure: true''
                             \<or> str_includes (the (fc_content file)) ''ssl: true'')) (files st)
      in if \<not> hasHttpsConfig
         then [\<lparr>si_type = ''missing_https'', severity = ''medium'',
                 si_description = ''No HTTPS enforcement configuration found'',
                 si_file = None,
                 recommendation =
                   ''Ensure all connections use HTTPS and implement proper SSL/TLS configuration''\<rparr>]
         else [])"

text \<open>
  The issues a scan collects from a snapshot, in the order they are pushed. Reading the
  dependencies of a manifest that parsed to \<open>null\<close> throws, and the scan rejects.
\<close>

definition scan_issues :: "env \<Rightarrow> ProjectStructure \<Rightarrow> error + SecurityIssue list" where
  "scan_issues e st =
     (let securityIssues1 = map sensitive_file_issue (filter is_sensitive_file (files st));
          securityIssues2 = securityIssues1 @ concat (map (hardcoded_secret_issues e) (packageJsons st));
          securityIssues3 = securityIssues2 @ missing_security_config_issues st
      in case forEach_err (\<lambda>pkg acc. case outdated_dependency_issues pkg of
                                        Inl err \<Rightarrow> Inl err
                                      | Inr new \<Rightarrow> Inr (acc @ new))
                (packageJsons st) securityIssues3 of
           Inl err \<Rightarrow> Inl err
         | Inr securityIssues4 \<Rightarrow> Inr (securityIssues4 @ missing_https_issues st))"

definition count_severity :: "string \<Rightarrow> SecurityIssue list \<Rightarrow> nat" where
  "count_severity sev securityIssues = length (filter (\<lambda>issue. severity issue = sev) securityIssues)"

definition securityScore :: "SecurityIssue list \<Rightarrow> int" where
  "securityScore securityIssues =
     (let criticalIssues = count_severity ''critical'' securityIssues;
          highIssues = count_severity ''high'' securityIssues;
          mediumIssues = count_severity ''medium'' securityIssues;
          lowIssues = count_severity ''low'' securityIssues
      in max 0 (100 - int criticalIssues * 25 - int highIssues * 15
                  - int mediumIssues * 10 - int lowIssues * 5))"

definition scan_failed :: "error \<Rightarrow> error" where
  "scan_failed err = Error (''Failed to perform security scan: '' @ error_message err)"

definition securityScanTool_execute :: "env \<Rightarrow> service \<Rightarrow> scan_context \<Rightarrow>
    (error + scan_output) \<times> service" where
  "securityScanTool_execute e svc ctx =
     (let owner = sc_owner ctx; repo = sc_repo ctx;
          (fetched, svc1) = getAllRepositories e svc False
      in case fetched of
           Inl err \<Rightarrow> (Inl (scan_failed err), svc1)
         | Inr repos \<Rightarrow>
             (case find_repository owner repo repos of
                None \<Rightarrow> (Inl (scan_failed (not_found owner repo)), svc1)
              | Some repository \<Rightarrow>
                  (case getRepositoryStructure e svc1 owner repo of
                     Inl err \<Rightarrow> (Inl (scan_failed err), svc1)
                   | Inr st \<Rightarrow>
                       (case scan_issues e st of
                          Inl err \<Rightarrow> (Inl (scan_failed err), svc1)
                        | Inr securityIssues \<Rightarrow>
                            (Inr \<lparr>so_repository =
                                    \<lparr>rr_name = repo_name repository,
                                     rr_fullName = fullName repository,
                                     rr_url = repo_url repository\<rparr>,
                                  securityAnalysis =
                                    \<lparr>score = securityScore securityIssues,
                                     totalIssues = length securityIssues,
                                     issuesBySeverity =
                                       \<lparr>critical = count_severity ''critical'' securityIssues,
                                        high = count_severity ''high'' securityIssues,
                                        medium = count_severity ''medium'' securityIssues,
                                        low = count_severity ''low'' securityIssues\<rparr>,
                                     issues = securityIssues\<rparr>,
                                  so_scanType = sc_scanType ctx\<rparr>,
                             svc1)))))"

section \<open>Notions used in the statements\<close>

text \<open>The depths of the calls of a traversal and the listing requests it made.\<close>

fun call_depth :: "event \<Rightarrow> nat option" where
  "call_depth (Call p d) = Some d"
| "call_depth ev = None"

fun listing :: "event \<Rightarrow> (string \<times> nat) option" where
  "listing (ListDir p d) = Some (p, d)"
| "listing ev = None"

definition call_depths :: "tstate \<Rightarrow> nat list" where
  "call_depths st = List.map_filter call_depth (events st)"

definition listings :: "tstate \<Rightarrow> (string \<times> nat) list" where
  "listings st = List.map_filter listing (events st)"

text \<open>
  An event within the depth bound: a call at depth at most \<open>maxDepth + 1\<close>, a listing
  request at depth at most \<open>maxDepth\<close>.
\<close>

fun event_within :: "nat \<Rightarrow> event \<Rightarrow> bool" where
  "event_within maxDepth (Call p d) = (d \<le> maxDepth + 1)"
| "event_within maxDepth (ListDir p d) = (d \<le> maxDepth)"
| "event_within maxDepth ev = True"

text \<open>Events that are neither a call nor a listing request.\<close>

definition quiet :: "event list \<Rightarrow> bool" where
  "quiet evs = list_all (\<lambda>ev. call_depth ev = None \<and> listing ev = None) evs"

text \<open>
  The extension of a file name in the words of the specification: the lowercased text
  after the last \<open>.\<close> of the name. A name without \<open>.\<close>, or with nothing after its last
  \<open>.\<close>, has no extension.
\<close>

definition spec_extension :: "string \<Rightarrow> string option" where
  "spec_extension name =
     (if CHR ''.'' \<in> set name
      then (let after = toLowerCase (rev (takeWhile (\<lambda>c. c \<noteq> CHR ''.'') (rev name)))
            in if after = [] then None else Some after)
      else None)"

definition extension_count :: "FileContent list \<Rightarrow> string \<Rightarrow> nat" where
  "extension_count fs ext = length (filter (\<lambda>f. spec_extension (fc_name f) = Some ext) fs)"

definition languages_agree :: "ProjectStructure \<Rightarrow> bool" where
  "languages_agree s =
     (distinct (map fst (languages s)) \<and>
      (\<forall>k. map_of (languages s) k =
             (if extension_count (files s) k = 0 then None
              else Some (extension_count (files s) k))))"

text \<open>
  The remote list call of \<open>getAllRepositories\<close>: whether a call makes it (the service is
  configured and the cache gives nothing), and the list it answers with when it
  succeeds.
\<close>

definition list_call_made :: "env \<Rightarrow> service \<Rightarrow> bool \<Rightarrow> bool" where
  "list_call_made e s forceRefresh =
     (isConfigured s \<and>
      (forceRefresh \<or> cache_hit (cache s) ''all_repositories'' (now_before e) = None))"

definition list_call_answer :: "env \<Rightarrow> service \<Rightarrow> Repository list option" where
  "list_call_answer e s =
     (case listForAuthenticatedUser e (the (octokit s)) of
        Inr repos \<Rightarrow> Some (map (to_repository e (the (currentAccount s))) repos)
      | Inl err \<Rightarrow> None)"

text \<open>
  The histories of a single-account service: \<open>service_run s F\<close> holds when \<open>s\<close> is
  reached from a new instance by \<open>setAccount\<close> and \<open>getAllRepositories\<close> calls, and \<open>F\<close>
  is the set of lists that the remote list calls made on the way answered with.
\<close>

inductive service_run :: "service \<Rightarrow> Repository list set \<Rightarrow> bool" where
  created: "service_run (new_service env_username env_token) {}"
| configured: "service_run s F \<Longrightarrow> service_run (setAccount user tok s) F"
| listed: "service_run s F \<Longrightarrow>
     service_run (snd (getAllRepositories e s forceRefresh))
       (if list_call_made e s forceRefresh then F \<union> set_option (list_call_answer e s) else F)"

text \<open>
  Complexity in the words of the specification: the points of the four thresholds and
  the label of a score.
\<close>

definition complexity_points :: "nat \<Rightarrow> nat \<Rightarrow> nat \<Rightarrow> nat \<Rightarrow> nat" where
  "complexity_points n_files n_directories n_languages n_manifests =
     (if n_files > 50 then 2 else if n_files > 20 then 1 else 0)
     + (if n_directories > 20 then 2 else if n_directories > 10 then 1 else 0)
     + (if n_languages > 3 then 1 else 0)
     + (if n_manifests > 1 then 1 else 0)"

definition complexity_label :: "nat \<Rightarrow> string" where
  "complexity_label points =
     (if points \<ge> 4 then ''high'' else if points \<ge> 2 then ''medium'' else ''low'')"

text \<open>
  Purpose inference as an ordered list of rules, each a label and its test; the first
  rule whose test holds gives the label.
\<close>

definition lowered_directories :: "ProjectStructure \<Rightarrow> string list" where
  "lowered_directories st = map toLowerCase (directories st)"

definition web_rule :: "Repository \<Rightarrow> ProjectStructure \<Rightarrow> bool" where
  "web_rule repository st =
     some (\<lambda>d. str_includes d ''components'' \<or> str_includes d ''pages'') (lowered_directories st)"

definition api_rule :: "Repository \<Rightarrow> ProjectStructure \<Rightarrow> bool" where
  "api_rule repository st =
     some (\<lambda>d. str_includes d ''routes'' \<or> str_includes d ''controllers'' \<or> str_includes d ''api'')
       (lowered_directories st)"

definition library_rule :: "Repository \<Rightarrow> ProjectStructure \<Rightarrow> bool" where
  "library_rule repository st =
     (length (packageJsons st) > 0
      \<and> (str_includes (toLowerCase (repo_name repository)) ''lib''
         \<or> str_includes
              (toLowerCase (case description repository of None \<Rightarrow> [] | Some d \<Rightarrow> d)) ''library''))"

definition cli_rule :: "Repository \<Rightarrow> ProjectStructure \<Rightarrow> bool" where
  "cli_rule repository st =
     some (\<lambda>d. str_includes d ''cli'' \<or> str_includes d ''bin'') (lowered_directories st)"

definition mobile_rule :: "Repository \<Rightarrow> ProjectStructure \<Rightarrow> bool" where
  "mobile_rule repository st =
     some (\<lambda>d. str_includes d ''android'' \<or> str_includes d ''ios'') (lowered_directories st)"

definition language_rule :: "Repository \<Rightarrow> ProjectStructure \<Rightarrow> bool" where
  "language_rule repository st =
     (''html'' \<in> set (map fst (languages st)) \<or> ''css'' \<in> set (map fst (languages st)))"

definition purpose_rules :: "(string \<times> (Repository \<Rightarrow> ProjectStructure \<Rightarrow> bool)) list" where
  "purpose_rules =
     [(''Web Application'', web_rule),
      (''API Server'', api_rule),
      (''Library/Package'', library_rule),
      (''CLI Tool'', cli_rule),
      (''Mobile Application'', mobile_rule),
      (''Website'', language_rule)]"

fun first_match :: "(string \<times> (Repository \<Rightarrow> ProjectStructure \<Rightarrow> bool)) list \<Rightarrow>
    Repository \<Rightarrow> ProjectStructure \<Rightarrow> string" where
  "first_match [] repository st = ''Software Project''"
| "first_match ((label, test) # rules) repository st =
     (if test repository st then label else first_match rules repository st)"

text \<open>The security score as the specification writes it, from the four counts.\<close>

definition score_formula :: "nat \<Rightarrow> nat \<Rightarrow> nat \<Rightarrow> nat \<Rightarrow> int" where
  "score_formula criticalCount highCount mediumCount lowCount =
     max 0 (100 - 25 * int criticalCount - 15 * int highCount - 10 * int mediumCount
              - 5 * int lowCount)"

text \<open>The issues of type \<open>sensitive_file\<close> among the issues of a scan.\<close>

definition sensitive_file_issues :: "SecurityIssue list \<Rightarrow> SecurityIssue list" where
  "sensitive_file_issues found = filter (\<lambda>issue. si_type issue = ''sensitive_file'') found"

section \<open>A sample repository\<close>

text \<open>
  A small account with one repository \<open>octo/app\<close>, four directory levels deep, on which
  the definitions are evaluated.
\<close>

definition entry :: "string \<Rightarrow> string \<Rightarrow> string \<Rightarrow> item" where
  "entry ty name path =
     \<lparr>i_type = ty, i_name = name, i_path = path, i_sha = [], i_size = 0, i_html_url = None,
      i_content = None, i_encoding = None\<rparr>"

definition sample_getContent :: "string \<Rightarrow> api_error + contents" where
  "sample_getContent path =
     (if path = [] then
        Inr (Listing [entry ''dir'' ''src'' ''src'',
                      entry ''file'' ''.env.production'' ''.env.production'',
                      entry ''file'' ''Dockerfile'' ''Dockerfile'',
                      entry ''file'' ''package.json'' ''package.json''])
      else if path = ''src'' then
        Inr (Listing [entry ''dir'' ''components'' ''src/components'',
                      entry ''file'' ''index.ts'' ''src/index.ts''])
      else if path = ''src/components'' then
        Inr (Listing [entry ''dir'' ''ui'' ''src/components/ui'',
                      entry ''file'' ''App.TS'' ''src/components/App.TS''])
      else if path = ''src/components/ui'' then
        Inr (Listing [entry ''dir'' ''deep'' ''src/components/ui/deep''])
      else if path = ''package.json'' then
        Inr (Single ((entry ''file'' ''package.json'' ''package.json'')
                       \<lparr>i_content := Some ''{}'', i_encoding := Some ''base64''\<rparr>))
      else Inl \<lparr>status = 404, message = ''Not Found''\<rparr>)"

definition sample_repo :: raw_repo where
  "sample_repo =
     \<lparr>r_id = 1, r_name = ''app'', r_full_name = ''octo/app'', r_description = None,
      r_language = Some ''TypeScript'', r_stargazers_count = 5, r_forks_count = 0, r_size = 10,
      r_updated_at = Some ''2024-12-19T00:00:00Z'', r_created_at = None, r_private = False,
      r_html_url = ''https://github.com/octo/app'', r_topics = None, r_license = None,
      r_default_branch = ''main''\<rparr>"

definition sample_env :: env where
  "sample_env =
     \<lparr>listForAuthenticatedUser = (\<lambda>tok. Inr [sample_repo]),
      getContent = (\<lambda>tok owner repo path. sample_getContent path),
      base64_decode = (\<lambda>s. s),
      json_parse = (\<lambda>s. Some (JObj [(''dependencies'', JObj [(''react'', JStr ''18.0.0'')])])),
      json_stringify = (\<lambda>j. []),
      now_before = 1000, now_after = 1001, now_iso = ''2025-01-01T00:00:00.000Z'',
      date_getTime = (\<lambda>s. 0), localeCompare = (\<lambda>a b. 0)\<rparr>"

text \<open>The same runtime with a remote whose every call fails.\<close>

definition failing_env :: env where
  "failing_env =
     sample_env\<lparr>listForAuthenticatedUser := (\<lambda>tok. Inl \<lparr>status = 500, message = ''Server Error''\<rparr>),
                getContent := (\<lambda>tok owner repo path. Inl \<lparr>status = 404, message = ''Not Found''\<rparr>)\<rparr>"

definition start :: tstate where
  "start = \<lparr>snapshot = empty_structure, events = []\<rparr>"

definition sample_service :: service where
  "sample_service = new_service (Some ''octo'') (Some ''t'')"

definition sample_multi_service :: multi_service where
  "sample_multi_service =
     \<lparr>accounts = [(''account1'', \<lparr>username = ''octo'', token = ''t'', acc_id = ''account1''\<rparr>)],
      m_cache = []\<rparr>"

text \<open>A configuration file of a front-end project, whose name contains \<open>env\<close>.\<close>

definition environment_file :: FileContent where
  "environment_file = new_file (entry ''file'' ''environment.ts'' ''src/environment.ts'')"

definition environment_snapshot :: ProjectStructure where
  "environment_snapshot = empty_structure\<lparr>files := [environment_file]\<rparr>"

definition production_env_file :: FileContent where
  "production_env_file = new_file (entry ''file'' ''.env.production'' ''.env.production'')"

definition production_snapshot :: ProjectStructure where
  "production_snapshot = empty_structure\<lparr>files := [production_env_file]\<rparr>"

text \<open>
  The scenario of the specification: 60 files, 25 directories, 4 languages and 2
  manifests, in a repository named \<open>ui-lib\<close> with a \<open>components\<close> and an \<open>api\<close> directory.
\<close>

definition large_snapshot :: ProjectStructure where
  "large_snapshot =
     \<lparr>files = replicate 60 environment_file,
      directories = ''src/Components'' # ''src/api'' # replicate 23 ''src'',
      languages = [(''ts'', 30), (''tsx'', 20), (''css'', 5), (''json'', 5)],
      packageJsons = [JObj [], JObj []],
      readmes = [], configs = []\<rparr>"

definition library_repository :: Repository where
  "library_repository =
     (to_repository sample_env \<lparr>username = ''octo'', token = ''t'', acc_id = ''current''\<rparr> sample_repo)
       \<lparr>repo_name := ''ui-lib''\<rparr>"

text \<open>A snapshot with the given directories and nothing else.\<close>

definition directories_snapshot :: "string list \<Rightarrow> ProjectStructure" where
  "directories_snapshot ds = empty_structure\<lparr>directories := ds\<rparr>"

definition shallow_context :: analyze_context where
  "shallow_context = \<lparr>ac_owner = ''octo'', ac_repo = ''app'', ac_maxDepth = 1\<rparr>"

definition stars_context :: list_context where
  "stars_context =
     \<lparr>lc_language = None, lc_sortBy = ''stars'', lc_limit = 50, lc_includePrivate = True\<rparr>"

definition sample_scan_context :: scan_context where
  "sample_scan_context = \<lparr>sc_owner = ''octo'', sc_repo = ''app'', sc_scanType = ''basic''\<rparr>"

text \<open>What the scan of the sample repository resolves with.\<close>

definition sample_scan_output :: scan_output where
  "sample_scan_output =
     \<lparr>so_repository =
        \<lparr>rr_name = ''app'', rr_fullName = ''octo/app'', rr_url = ''https://github.com/octo/app''\<rparr>,
      securityAnalysis =
        \<lparr>score = 65, totalIssues = 3,
         issuesBySeverity = \<lparr>critical = 0, high = 1, medium = 2, low = 0\<rparr>,
         issues = sensitive_file_issue production_env_file
                    # missing_security_config_issues production_snapshot
                    @ missing_https_issues production_snapshot\<rparr>,
      so_scanType = ''basic''\<rparr>"

text \<open>An account with two repositories, the one with fewer stars updated last.\<close>

definition starred_repo :: raw_repo where
  "starred_repo = sample_repo\<lparr>r_id := 2, r_name := ''big'', r_stargazers_count := 900\<rparr>"

definition two_repo_env :: env where
  "two_repo_env = sample_env\<lparr>listForAuthenticatedUser := (\<lambda>tok. Inr [sample_repo, starred_repo])\<rparr>"

text \<open>
  What \<open>analyze_codebase\<close> resolves with on the sample repository when called with
  \<open>maxDepth = 1\<close>.
\<close>

definition sample_analyze_output :: analyze_output where
  "sample_analyze_output =
     \<lparr>ao_repository =
        \<lparr>rs_name = ''app'', rs_fullName = ''octo/app'', rs_description = None,
         rs_language = Some ''TypeScript'', rs_stars = 5, rs_forks = 0, rs_size = 10,
         rs_topics = [], rs_private = False\<rparr>,
      ao_analysis =
        \<lparr>as_mainPurpose = ''Web Application'', as_complexity = ''low'',
         as_frameworks = [''React''], as_technologies = [''TypeScript''],
         as_patterns = [''Component Architecture'', ''Containerization''],
         as_keyFeatures = []\<rparr>,
      ao_structure =
        \<lparr>fileCount = 5, directoryCount = 4,
         ss_languages = [(''ts'', 2), (''production'', 1), (''json'', 1)],
         hasConfigs = False,
         packageManagers =
           [\<lparr>pm_name = None, pm_version = None, pm_dependencies = [''react''],
             pm_devDependencies = []\<rparr>]\<rparr>,
      ao_insights =
        \<lparr>isWellStructured = True, hasTests = False, hasDocumentation = False,
         modernStack = True\<rparr>\<rparr>"

section \<open>Facts about the helpers\<close>

lemmas eval_defs = sample_env_def sample_getContent_def entry_def start_def empty_structure_def
  traverseRepository.simps emit_def push_directory_def items_of_def visit_file_def
  fetch_if_important_def fetch_content_def new_file_def push_file_def push_package_json_def
  push_readme_def push_config_def track_language_def shouldFetchContent_def isConfigFile_def
  getFileExtension_def toLowerCase_def lower_char_def some_def truthy_def
  traverse_error_line_def Let_def

lemma events_emit [simp]: "events (emit ev st) = events st @ [ev]"
  by (simp add: emit_def)

lemma snapshot_emit [simp]: "snapshot (emit ev st) = snapshot st"
  by (simp add: emit_def)

lemma events_push_directory [simp]: "events (push_directory p st) = events st"
  by (simp add: push_directory_def)

lemma events_fetch_content:
  "\<exists>evs. events (snd (fetch_content e ok owner repo it fi st)) = events st @ evs \<and> quiet evs"
  by (auto simp: fetch_content_def Let_def quiet_def split: sum.splits contents.splits)

lemma snapshot_fetch_content [simp]:
  "snapshot (snd (fetch_content e ok owner repo it fi st)) = snapshot st"
  by (auto simp: fetch_content_def Let_def split: sum.splits contents.splits)

lemma events_fetch_if_important:
  "\<exists>evs. events (snd (fetch_if_important e ok owner repo it st)) = events st @ evs \<and> quiet evs"
  using events_fetch_content [of e ok owner repo it "new_file it" st]
  by (auto simp: fetch_if_important_def quiet_def)

lemma events_steps [simp]:
  "events (push_file fi st) = events st"
  "events (push_readme fileName fi st) = events st"
  "events (push_config fileName fi st) = events st"
  "events (track_language name st) = events st"
  by (simp_all add: push_file_def push_readme_def push_config_def track_language_def
        split: option.splits)

lemma events_push_package_json:
  "\<exists>evs. events (push_package_json e it fileName fi st) = events st @ evs \<and> quiet evs"
  by (auto simp: push_package_json_def quiet_def split: option.splits)

lemma events_visit_file:
  "\<exists>evs. events (visit_file e ok owner repo it st) = events st @ evs \<and> quiet evs"
proof -
  obtain evs1 where a: "events (snd (fetch_if_important e ok owner repo it st)) = events st @ evs1"
      and qa: "quiet evs1"
    using events_fetch_if_important by blast
  obtain evs2 where b: "events (push_package_json e it (toLowerCase (i_name it))
        (fst (fetch_if_important e ok owner repo it st))
        (push_file (fst (fetch_if_important e ok owner repo it st)) (snd (fetch_if_important e ok owner repo it st))))
        = events (push_file (fst (fetch_if_important e ok owner repo it st)) (snd (fetch_if_important e ok owner repo it st))) @ evs2"
      and qb: "quiet evs2"
    using events_push_package_json by blast
  have "events (visit_file e ok owner repo it st) = events st @ (evs1 @ evs2)"
    unfolding visit_file_def Let_def fetch_if_important_def [symmetric]
    by (simp add: split_beta a b)
  moreover have "quiet (evs1 @ evs2)"
    using qa qb by (simp add: quiet_def)
  ultimately show ?thesis by blast
qed

lemma traverse_invariant:
  assumes "\<And>st p d. d \<le> maxDepth + 1 \<Longrightarrow> I st \<Longrightarrow> I (emit (Call p d) st)"
    and "\<And>st p d. d \<le> maxDepth \<Longrightarrow> I st \<Longrightarrow> I (emit (ListDir p d) st)"
    and "\<And>st m. I st \<Longrightarrow> I (emit (LogError m) st)"
    and "\<And>st p. I st \<Longrightarrow> I (push_directory p st)"
    and "\<And>st it. I st \<Longrightarrow> I (visit_file e ok owner repo it st)"
    and "I st" and "currentDepth \<le> maxDepth + 1"
  shows "I (traverseRepository e ok owner repo path st maxDepth currentDepth)"
  using assms
proof (induction e ok owner repo path st maxDepth currentDepth rule: traverseRepository.induct)
  case (1 e ok owner repo path st maxDepth currentDepth)
  note call = "1.prems"(1) and list = "1.prems"(2) and log = "1.prems"(3)
    and push = "1.prems"(4) and visit = "1.prems"(5)
  show ?case
  proof (cases "maxDepth < currentDepth")
    case True
    then show ?thesis
      using call [OF "1.prems"(7) "1.prems"(6)] by (subst traverseRepository.simps) simp
  next
    case False
    then have le: "currentDepth \<le> maxDepth" by simp
    have entered: "I (emit (ListDir path currentDepth) (emit (Call path currentDepth) st))"
      using call [OF "1.prems"(7) "1.prems"(6)] list [OF le] by blast
    show ?thesis
    proof (cases "getContent e ok owner repo path")
      case (Inl err)
      then show ?thesis
        using False entered log by (subst traverseRepository.simps) simp
    next
      case (Inr cs)
      have step: "I (if i_type it = ''dir''
                     then traverseRepository e ok owner repo (i_path it)
                            (push_directory (i_path it) s) maxDepth (currentDepth + 1)
                     else if i_type it = ''file'' then visit_file e ok owner repo it s else s)"
        if "it \<in> set (items_of cs)" and "I s" for it s
      proof (cases "i_type it = ''dir''")
        case True
        have "I (traverseRepository e ok owner repo (i_path it)
                   (push_directory (i_path it) s) maxDepth (currentDepth + 1))"
          using "1.IH" [OF False Inr that(1) True call list log push visit push [OF that(2)]] le
          by simp
        then show ?thesis using True by simp
      next
        case False
        then show ?thesis using visit [OF that(2)] that(2) by simp
      qed
      have "I (fold (\<lambda>it s. if i_type it = ''dir''
                     then traverseRepository e ok owner repo (i_path it)
                            (push_directory (i_path it) s) maxDepth (currentDepth + 1)
                     else if i_type it = ''file'' then visit_file e ok owner repo it s else s)
                 (items_of cs)
                 (emit (ListDir path currentDepth) (emit (Call path currentDepth) st)))"
      proof (rule fold_invariant [where Q = "\<lambda>it. it \<in> set (items_of cs)"])
        show "I (emit (ListDir path currentDepth) (emit (Call path currentDepth) st))"
          by (rule entered)
      qed (simp_all add: step)
      then show ?thesis
        using False Inr by (subst traverseRepository.simps) simp
    qed
  qed
qed

lemma split_on_nonempty: "split_on sep s \<noteq> []"
  by (induction s) (auto split: list.splits)

lemma length_split_on: "(Suc 0 < length (split_on sep s)) = (sep \<in> set s)"
proof (induction s)
  case Nil
  then show ?case by simp
next
  case (Cons c s)
  then show ?case
    using split_on_nonempty [of sep s]
    by (cases "split_on sep s") auto
qed

lemma last_split_on: "last (split_on sep s) = rev (takeWhile (\<lambda>c. c \<noteq> sep) (rev s))"
proof (induction s)
  case Nil
  then show ?case by simp
next
  case (Cons c s)
  show ?case
  proof (cases "sep \<in> set s")
    case True
    then have "Suc 0 < length (split_on sep s)" by (simp add: length_split_on)
    then obtain p q ps where ps: "split_on sep s = p # q # ps"
      by (cases "split_on sep s"; cases "tl (split_on sep s)") auto
    have tw: "takeWhile (\<lambda>c. c \<noteq> sep) (rev s @ [c]) = takeWhile (\<lambda>c. c \<noteq> sep) (rev s)"
      using True by (simp add: takeWhile_append1) 
    show ?thesis using Cons ps tw by auto
  next
    case False
    then have "\<not> Suc 0 < length (split_on sep s)" by (simp add: length_split_on)
    then obtain p where ps: "split_on sep s = [p]"
      using split_on_nonempty [of sep s] by (cases "split_on sep s") auto
    have tw0: "takeWhile (\<lambda>c. c \<noteq> sep) (rev s) = rev s"
      using False by (auto simp: takeWhile_eq_all_conv)
    have tw1: "takeWhile (\<lambda>c. c \<noteq> sep) (rev s @ [c]) = rev s @ takeWhile (\<lambda>c. c \<noteq> sep) [c]"
      using False by (intro takeWhile_append2) auto
    have p: "p = s" using Cons ps by (simp add: tw0)
    show ?thesis
      using ps p by (simp add: tw1)
  qed
qed

lemma getFileExtension_spec:
  "(case getFileExtension name of None \<Rightarrow> None | Some x \<Rightarrow> if x \<noteq> [] then Some x else None)
     = spec_extension name"
  by (simp add: getFileExtension_def spec_extension_def Let_def length_split_on last_split_on)

lemma map_of_bump:
  "map_of (bump l k) = (map_of l)(k \<mapsto> (case map_of l k of None \<Rightarrow> 1 | Some n \<Rightarrow> n + 1))"
  by (induction l k rule: bump.induct) (auto simp: fun_eq_iff)

lemma keys_bump: "fst ` set (bump l k) = insert k (fst ` set l)"
  by (induction l k rule: bump.induct) auto

lemma distinct_bump: "distinct (map fst l) \<Longrightarrow> distinct (map fst (bump l k))"
proof (induction l k rule: bump.induct)
  case (1 k)
  then show ?case by simp
next
  case (2 k' n rest k)
  show ?case
  proof (cases "k' = k")
    case True
    then show ?thesis using 2 by simp
  next
    case False
    have "k' \<notin> fst ` set (bump rest k)"
      using 2 False by (simp add: keys_bump)
    then show ?thesis using 2 False by simp
  qed
qed

lemma fetch_content_file:
  "fc_name (fst (fetch_content e ok owner repo it fi st)) = fc_name fi
   \<and> fc_path (fst (fetch_content e ok owner repo it fi st)) = fc_path fi"
  by (auto simp: fetch_content_def Let_def split: sum.splits contents.splits)

lemma fetch_if_important_facts:
  "fc_name (fst (fetch_if_important e ok owner repo it st)) = i_name it"
  "fc_path (fst (fetch_if_important e ok owner repo it st)) = i_path it"
  "snapshot (snd (fetch_if_important e ok owner repo it st)) = snapshot st"
  by (simp_all add: fetch_if_important_def fetch_content_file new_file_def)

lemma files_steps [simp]:
  "files (snapshot (push_file fi st)) = files (snapshot st) @ [fi]"
  "files (snapshot (push_package_json e it fileName fi st)) = files (snapshot st)"
  "files (snapshot (push_readme fileName fi st)) = files (snapshot st)"
  "files (snapshot (push_config fileName fi st)) = files (snapshot st)"
  "files (snapshot (track_language name st)) = files (snapshot st)"
  by (simp_all add: push_file_def push_package_json_def push_readme_def push_config_def
        track_language_def split: option.splits)

lemma directories_steps [simp]:
  "directories (snapshot (push_file fi st)) = directories (snapshot st)"
  "directories (snapshot (push_package_json e it fileName fi st)) = directories (snapshot st)"
  "directories (snapshot (push_readme fileName fi st)) = directories (snapshot st)"
  "directories (snapshot (push_config fileName fi st)) = directories (snapshot st)"
  "directories (snapshot (track_language name st)) = directories (snapshot st)"
  by (simp_all add: push_file_def push_package_json_def push_readme_def push_config_def
        track_language_def split: option.splits)

lemma languages_steps [simp]:
  "languages (snapshot (push_file fi st)) = languages (snapshot st)"
  "languages (snapshot (push_package_json e it fileName fi st)) = languages (snapshot st)"
  "languages (snapshot (push_readme fileName fi st)) = languages (snapshot st)"
  "languages (snapshot (push_config fileName fi st)) = languages (snapshot st)"
  by (simp_all add: push_file_def push_package_json_def push_readme_def push_config_def
        split: option.splits)

lemma languages_track_language:
  "languages (snapshot (track_language name st)) =
     (case spec_extension name of
        None \<Rightarrow> languages (snapshot st)
      | Some ext \<Rightarrow> bump (languages (snapshot st)) ext)"
  unfolding getFileExtension_spec [of name, symmetric]
  by (simp add: track_language_def split: option.splits)

lemma visit_file_files:
  "files (snapshot (visit_file e ok owner repo it st)) =
     files (snapshot st) @ [fst (fetch_if_important e ok owner repo it st)]"
  unfolding visit_file_def Let_def fetch_if_important_def [symmetric]
  by (simp add: split_beta fetch_if_important_facts)

lemma visit_file_directories:
  "directories (snapshot (visit_file e ok owner repo it st)) = directories (snapshot st)"
  unfolding visit_file_def Let_def fetch_if_important_def [symmetric]
  by (simp add: split_beta fetch_if_important_facts)

lemma visit_file_languages:
  "languages (snapshot (visit_file e ok owner repo it st)) =
         (case spec_extension (i_name it) of
            None \<Rightarrow> languages (snapshot st)
          | Some ext \<Rightarrow> bump (languages (snapshot st)) ext)"
  unfolding visit_file_def Let_def fetch_if_important_def [symmetric]
  by (simp add: split_beta fetch_if_important_facts languages_track_language split: option.splits)

lemma extension_count_snoc:
  "extension_count (fs @ [fi]) k =
     extension_count fs k + (if spec_extension (fc_name fi) = Some k then 1 else 0)"
  by (simp add: extension_count_def)

lemma languages_agree_visit_file:
  assumes "languages_agree (snapshot st)"
  shows "languages_agree (snapshot (visit_file e ok owner repo it st))"
proof (cases "spec_extension (i_name it)")
  case None
  then show ?thesis
    using assms
    by (simp add: languages_agree_def extension_count_snoc visit_file_files
          visit_file_languages fetch_if_important_facts)
next
  case (Some ext)
  then show ?thesis
    using assms
    by (auto simp: languages_agree_def extension_count_snoc map_of_bump distinct_bump
          visit_file_files visit_file_languages fetch_if_important_facts)
qed

lemma languages_agree_push:
  "languages_agree (snapshot st) \<Longrightarrow> languages_agree (snapshot (push_directory p st))"
  by (simp add: push_directory_def languages_agree_def)

lemma languages_agree_traverse:
  assumes "languages_agree (snapshot st)"
  shows "languages_agree (snapshot (traverseRepository e ok owner repo path st maxDepth currentDepth))"
proof (cases "currentDepth \<le> maxDepth + 1")
  case True
  show ?thesis
  proof (rule traverse_invariant [where I = "\<lambda>st. languages_agree (snapshot st)"])
    show "languages_agree (snapshot st)" by (rule assms)
    show "currentDepth \<le> maxDepth + 1" by (rule True)
  qed (simp_all only: snapshot_emit languages_agree_visit_file languages_agree_push)
next
  case False
  then show ?thesis using assms by (subst traverseRepository.simps) simp
qed

lemma map_filter_append: "List.map_filter f (xs @ ys) = List.map_filter f xs @ List.map_filter f ys"
  by (simp add: List.map_filter_def)

lemma quiet_map_filter:
  "quiet evs \<Longrightarrow> List.map_filter call_depth evs = [] \<and> List.map_filter listing evs = []"
  by (induction evs) (auto simp: quiet_def List.map_filter_def)

lemma quiet_within: "quiet evs \<Longrightarrow> list_all (event_within m) evs"
proof (induction evs)
  case Nil
  then show ?case by simp
next
  case (Cons ev evs)
  then show ?case by (cases ev) (auto simp: quiet_def)
qed

lemma within_visit_file:
  assumes "list_all (event_within m) (events st)"
  shows "list_all (event_within m) (events (visit_file e ok owner repo it st))"
proof -
  obtain evs where "events (visit_file e ok owner repo it st) = events st @ evs" and "quiet evs"
    using events_visit_file by blast
  then show ?thesis using assms quiet_within by simp
qed

lemma listings_visit_file: "listings (visit_file e ok owner repo it st) = listings st"
proof -
  obtain evs where "events (visit_file e ok owner repo it st) = events st @ evs" and "quiet evs"
    using events_visit_file by blast
  then show ?thesis using quiet_map_filter by (simp add: listings_def map_filter_append)
qed

lemma within_traverse:
  assumes "list_all (event_within maxDepth) (events st)" and "currentDepth \<le> maxDepth + 1"
  shows "list_all (event_within maxDepth)
           (events (traverseRepository e ok owner repo path st maxDepth currentDepth))"
proof (rule traverse_invariant [where I = "\<lambda>st. list_all (event_within maxDepth) (events st)"])
  show "list_all (event_within maxDepth) (events st)" by (rule assms)
  show "currentDepth \<le> maxDepth + 1" by (rule assms)
qed (simp_all add: within_visit_file)

lemma within_calls:
  "list_all (event_within m) evs \<Longrightarrow> list_all (\<lambda>d. d \<le> m + 1) (List.map_filter call_depth evs)"
proof (induction evs)
  case Nil
  then show ?case by (simp add: List.map_filter_def)
next
  case (Cons ev evs)
  then show ?case by (cases ev) (auto simp: List.map_filter_def)
qed

lemma within_listings:
  "list_all (event_within m) evs \<Longrightarrow> list_all (\<lambda>l. snd l \<le> m) (List.map_filter listing evs)"
proof (induction evs)
  case Nil
  then show ?case by (simp add: List.map_filter_def)
next
  case (Cons ev evs)
  then show ?case by (cases ev) (auto simp: List.map_filter_def)
qed

lemma traverse_past_depth:
  "maxDepth < currentDepth \<Longrightarrow>
     traverseRepository e ok owner repo path st maxDepth currentDepth = emit (Call path currentDepth) st"
  by (subst traverseRepository.simps) simp

lemma listings_emit:
  "listings (emit (Call p d) st) = listings st"
  "listings (emit (ListDir p d) st) = listings st @ [(p, d)]"
  "listings (emit (LogError m) st) = listings st"
  "listings (push_directory q st) = listings st"
  by (simp_all add: listings_def map_filter_append List.map_filter_def)

lemma listings_depth_zero:
  "listings (traverseRepository e ok owner repo path st 0 0) = listings st @ [(path, 0)]"
proof (cases "getContent e ok owner repo path")
  case (Inl err)
  then show ?thesis
    by (subst traverseRepository.simps) (simp add: listings_emit)
next
  case (Inr cs)
  have "listings (fold (\<lambda>it s. if i_type it = ''dir''
                     then traverseRepository e ok owner repo (i_path it)
                            (push_directory (i_path it) s) 0 (0 + 1)
                     else if i_type it = ''file'' then visit_file e ok owner repo it s else s)
                 xs s0) = listings s0" for xs s0
    by (induction xs arbitrary: s0)
       (simp_all add: traverse_past_depth listings_emit listings_visit_file)
  then show ?thesis
    using Inr by (subst traverseRepository.simps) (simp add: listings_emit)
qed

section \<open>Depth bound of the traversal\<close>

text \<open>
  Claim C3, as amended. \<open>traverseRepository\<close> tests \<open>currentDepth > maxDepth\<close> on entry
  and calls itself with \<open>currentDepth + 1\<close> for every directory it lists, so a
  traversal started at depth 0 makes calls at depths up to \<open>maxDepth + 1\<close>; a call with
  \<open>currentDepth > maxDepth\<close> returns at once and changes nothing; every listing request
  is made at a depth of at most \<open>maxDepth\<close>; and with \<open>maxDepth = 0\<close> the only path
  listed is the starting path, so no subdirectory is descended into.
\<close>

theorem traversal_depth_bound:
  "list_all (\<lambda>d. d \<le> maxDepth + 1)
     (call_depths (traverseRepository e ok owner repo path \<lparr>snapshot = s, events = []\<rparr> maxDepth 0))
   \<and> list_all (\<lambda>l. snd l \<le> maxDepth)
     (listings (traverseRepository e ok owner repo path \<lparr>snapshot = s, events = []\<rparr> maxDepth 0))
   \<and> (maxDepth < currentDepth \<longrightarrow>
        traverseRepository e ok owner repo path st maxDepth currentDepth
          = emit (Call path currentDepth) st)
   \<and> listings (traverseRepository e ok owner repo path \<lparr>snapshot = s, events = []\<rparr> 0 0)
        = [(path, 0)]"
proof -
  have w: "list_all (event_within maxDepth)
       (events (traverseRepository e ok owner repo path \<lparr>snapshot = s, events = []\<rparr> maxDepth 0))"
    by (rule within_traverse) simp_all
  have z: "listings (traverseRepository e ok owner repo path \<lparr>snapshot = s, events = []\<rparr> 0 0)
        = [(path, 0)]"
    by (simp add: listings_depth_zero) (simp add: listings_def List.map_filter_def)
  show ?thesis
    using within_calls [OF w] within_listings [OF w] traverse_past_depth z
    by (simp add: call_depths_def listings_def)
qed

text \<open>
  The theorem on the sample repository: a call at depth 2 under \<open>maxDepth = 1\<close> only
  records itself, and a traversal with \<open>maxDepth = 0\<close> lists the root alone.
\<close>

theorem traversal_depth_bound_witness:
  "(1::nat) < 2
   \<and> traverseRepository sample_env ''t'' ''octo'' ''app'' ''src'' start 1 2 = emit (Call ''src'' 2) start
   \<and> listings (traverseRepository sample_env ''t'' ''octo'' ''app'' [] start 0 0) = [([], 0)]"
  using traversal_depth_bound [of 1 sample_env "''t''" "''octo''" "''app''" "''src''" empty_structure 2 start]
    traversal_depth_bound [of 0 sample_env "''t''" "''octo''" "''app''" "[]" empty_structure 0 start]
  by (simp add: start_def)

text \<open>
  Claim C3 as stated fails: on the sample repository with \<open>maxDepth = 0\<close> the traversal
  calls itself for the directory \<open>src\<close> with \<open>currentDepth = 1\<close>.
\<close>

theorem recursive_call_past_depth_counterexample:
  "Call ''src'' 1 \<in> set (events (traverseRepository sample_env ''t'' ''octo'' ''app'' [] start 0 0))
   \<and> \<not> (1::nat) \<le> 0"
  by (simp add: eval_defs)

section \<open>Languages of a snapshot\<close>

lemma set_map_filter: "set (List.map_filter f xs) = {y. \<exists>x \<in> set xs. f x = Some y}"
  by (induction xs) (auto simp: List.map_filter_def)

lemma keys_from_map_of:
  assumes "languages_agree s"
  shows "set (map fst (languages s)) = set (List.map_filter (\<lambda>f. spec_extension (fc_name f)) (files s))"
proof -
  have "k \<in> set (map fst (languages s)) \<longleftrightarrow> k \<in> set (List.map_filter (\<lambda>f. spec_extension (fc_name f)) (files s))" for k
  proof -
    have "k \<in> set (map fst (languages s)) \<longleftrightarrow> map_of (languages s) k \<noteq> None"
      by (simp add: map_of_eq_None_iff)
    also have "\<dots> \<longleftrightarrow> extension_count (files s) k \<noteq> 0"
      using assms by (simp add: languages_agree_def)
    also have "\<dots> \<longleftrightarrow> (\<exists>f \<in> set (files s). spec_extension (fc_name f) = Some k)"
      by (auto simp: extension_count_def filter_empty_conv)
    also have "\<dots> \<longleftrightarrow> k \<in> set (List.map_filter (\<lambda>f. spec_extension (fc_name f)) (files s))"
      by (simp add: set_map_filter)
    finally show ?thesis .
  qed
  then show ?thesis by blast
qed

lemma languages_agree_empty: "languages_agree empty_structure"
  by (simp add: languages_agree_def empty_structure_def extension_count_def)

lemma no_dot_no_extension: "CHR ''.'' \<notin> set name \<Longrightarrow> getFileExtension name = None"
  by (simp add: getFileExtension_def Let_def length_split_on)


lemma sample_languages:
  "languages (snapshot (traverseRepository sample_env ''t'' ''octo'' ''app'' []
      \<lparr>snapshot = empty_structure, events = []\<rparr> 1 0))
     = [(''ts'', 1), (''production'', 1), (''json'', 1)]"
  by (simp add: eval_defs)


section \<open>Failures during a traversal\<close>



section \<open>Failures of the repository list\<close>

lemma getAllRepositories_cases:
  "getAllRepositories e s fr =
     (if \<not> isConfigured s then (Inl not_configured, s)
      else if \<not> list_call_made e s fr
      then (Inr (the (cache_hit (cache s) ''all_repositories'' (now_before e))), s)
      else (case list_call_answer e s of
              Some allRepos \<Rightarrow>
                (Inr allRepos,
                 s\<lparr>cache := AList.update ''all_repositories'' (allRepos, now_after e) (cache s)\<rparr>)
            | None \<Rightarrow>
                (Inl (Error (''Failed to fetch repositories: ''
                        @ message (projl (listForAuthenticatedUser e (the (octokit s)))))), s)))"
  by (auto simp: getAllRepositories_def list_call_made_def list_call_answer_def Let_def
        split: option.splits sum.splits)

lemma cache_hit_cached:
  "cache_hit c key now = Some d \<Longrightarrow> \<exists>ts. map_of c key = Some (d, ts)"
  by (auto simp: cache_hit_def split: option.splits if_splits)

lemma cached_lists_fetched:
  "service_run s F \<Longrightarrow> map_of (cache s) key = Some (d, ts) \<Longrightarrow> d \<in> F"
proof (induction arbitrary: key d ts rule: service_run.induct)
  case (created env_username env_token)
  then show ?case by (simp add: new_service_def setAccount_def Let_def split: if_splits)
next
  case (configured s F user tok)
  then show ?case by (simp add: setAccount_def)
next
  case (listed s F e forceRefresh)
  show ?case
  proof (cases "list_call_made e s forceRefresh")
    case False
    then have "snd (getAllRepositories e s forceRefresh) = s"
      by (simp add: getAllRepositories_cases)
    then show ?thesis using listed False by simp
  next
    case True
    then have conf: "isConfigured s" by (simp add: list_call_made_def)
    show ?thesis
    proof (cases "list_call_answer e s")
      case None
      then have "snd (getAllRepositories e s forceRefresh) = s"
        using True conf by (simp add: getAllRepositories_cases)
      then show ?thesis using listed True by simp
    next
      case (Some allRepos)
      then have "cache (snd (getAllRepositories e s forceRefresh)) =
          AList.update ''all_repositories'' (allRepos, now_after e) (cache s)"
        using True conf by (simp add: getAllRepositories_cases)
      then show ?thesis
        using listed True Some by (auto simp: update_conv' split: if_splits)
    qed
  qed
qed


lemmas service_eval = sample_service_def new_service_def setAccount_def isConfigured_def truthy_def
  failing_env_def sample_env_def getAllRepositories_def cache_hit_def list_call_made_def
  list_call_answer_def Let_def



section \<open>Complexity and purpose\<close>

text \<open>
  Claim C7. The complexity label of a snapshot is the label of the points that its
  numbers of files, directories, languages and manifests earn at the four thresholds:
  4 points or more give \<open>high\<close>, 2 or more \<open>medium\<close>, fewer \<open>low\<close>. A snapshot with 60
  files, 25 directories, 4 languages and 2 manifests earns 2 + 2 + 1 + 1 points and is
  labelled \<open>high\<close>.
\<close>

theorem complexity_from_thresholds:
  "assessComplexity st =
     complexity_label (complexity_points (length (files st)) (length (directories st))
        (length (languages st)) (length (packageJsons st)))
   \<and> complexity_points 60 25 4 2 = 2 + 2 + 1 + 1
   \<and> complexity_label 6 = ''high''
   \<and> (length (files st) = 60 \<and> length (directories st) = 25 \<and> length (languages st) = 4
        \<and> length (packageJsons st) = 2 \<longrightarrow> assessComplexity st = ''high'')"
  by (simp add: assessComplexity_def complexity_label_def complexity_points_def Let_def)

text \<open>The theorem on the snapshot of the scenario.\<close>

theorem complexity_from_thresholds_witness:
  "length (files large_snapshot) = 60 \<and> length (directories large_snapshot) = 25
   \<and> length (languages large_snapshot) = 4 \<and> length (packageJsons large_snapshot) = 2
   \<and> assessComplexity large_snapshot = ''high''"
proof -
  have sizes: "length (files large_snapshot) = 60 \<and> length (directories large_snapshot) = 25
      \<and> length (languages large_snapshot) = 4 \<and> length (packageJsons large_snapshot) = 2"
    by (simp add: large_snapshot_def)
  then show ?thesis
    using complexity_from_thresholds [of large_snapshot] by blast
qed

lemma inferMainPurpose_rules:
  "inferMainPurpose repository st = first_match purpose_rules repository st"
  by (simp add: inferMainPurpose_def purpose_rules_def web_rule_def api_rule_def
        library_rule_def cli_rule_def mobile_rule_def language_rule_def lowered_directories_def
        Let_def)

text \<open>
  Claim C8. Purpose inference returns the label of the first rule that matches, in the
  order web application, API server, library, CLI tool, mobile, the language fallback,
  and the default \<open>Software Project\<close> when none does; a later rule decides only when
  every earlier one fails. A snapshot with a directory whose lowercased path contains
  \<open>components\<close> or \<open>pages\<close> is a \<open>Web Application\<close> whatever the later rules say.
\<close>

theorem purpose_first_match_wins:
  "inferMainPurpose repository st = first_match purpose_rules repository st
   \<and> map fst purpose_rules =
       [''Web Application'', ''API Server'', ''Library/Package'', ''CLI Tool'',
        ''Mobile Application'', ''Website'']
   \<and> (web_rule repository st \<longrightarrow> inferMainPurpose repository st = ''Web Application'')
   \<and> (\<not> web_rule repository st \<and> api_rule repository st \<longrightarrow>
        inferMainPurpose repository st = ''API Server'')
   \<and> (\<not> web_rule repository st \<and> \<not> api_rule repository st \<and> library_rule repository st \<longrightarrow>
        inferMainPurpose repository st = ''Library/Package'')
   \<and> (\<not> web_rule repository st \<and> \<not> api_rule repository st \<and> \<not> library_rule repository st
        \<and> cli_rule repository st \<longrightarrow> inferMainPurpose repository st = ''CLI Tool'')
   \<and> (\<not> web_rule repository st \<and> \<not> api_rule repository st \<and> \<not> library_rule repository st
        \<and> \<not> cli_rule repository st \<and> mobile_rule repository st \<longrightarrow>
        inferMainPurpose repository st = ''Mobile Application'')
   \<and> (\<not> web_rule repository st \<and> \<not> api_rule repository st \<and> \<not> library_rule repository st
        \<and> \<not> cli_rule repository st \<and> \<not> mobile_rule repository st \<longrightarrow>
        inferMainPurpose repository st
          = (if language_rule repository st then ''Website'' else ''Software Project''))
   \<and> (dir \<in> set (directories st)
        \<and> (str_includes (toLowerCase dir) ''components'' \<or> str_includes (toLowerCase dir) ''pages'')
        \<longrightarrow> inferMainPurpose repository st = ''Web Application'')"
proof -
  have web: "web_rule repository st"
    if "dir \<in> set (directories st)"
      and "str_includes (toLowerCase dir) ''components'' \<or> str_includes (toLowerCase dir) ''pages''"
    using that by (auto simp: web_rule_def lowered_directories_def some_def list_ex_iff)
  show ?thesis
    using web by (auto simp: inferMainPurpose_rules purpose_rules_def)
qed

text \<open>
  The theorem on the snapshot of the scenario in the repository \<open>ui-lib\<close>: the API, the
  library and the language rule match as well, and the label is \<open>Web Application\<close>.
  Each later rule decides on a snapshot where the earlier ones fail.
\<close>

theorem purpose_first_match_wins_witness:
  "''src/Components'' \<in> set (directories large_snapshot)
   \<and> str_includes (toLowerCase ''src/Components'') ''components''
   \<and> api_rule library_repository large_snapshot
   \<and> library_rule library_repository large_snapshot
   \<and> language_rule library_repository large_snapshot
   \<and> inferMainPurpose library_repository large_snapshot = ''Web Application''
   \<and> \<not> web_rule library_repository (directories_snapshot [''src/routes''])
   \<and> api_rule library_repository (directories_snapshot [''src/routes''])
   \<and> inferMainPurpose library_repository (directories_snapshot [''src/routes'']) = ''API Server''
   \<and> library_rule library_repository (empty_structure\<lparr>packageJsons := [JObj []]\<rparr>)
   \<and> inferMainPurpose library_repository (empty_structure\<lparr>packageJsons := [JObj []]\<rparr>)
       = ''Library/Package''
   \<and> cli_rule library_repository (directories_snapshot [''bin''])
   \<and> inferMainPurpose library_repository (directories_snapshot [''bin'']) = ''CLI Tool''
   \<and> mobile_rule library_repository (directories_snapshot [''android''])
   \<and> inferMainPurpose library_repository (directories_snapshot [''android''])
       = ''Mobile Application''
   \<and> inferMainPurpose library_repository empty_structure = ''Software Project''"
proof -
  have dir: "''src/Components'' \<in> set (directories large_snapshot)"
    by (simp add: large_snapshot_def)
  have low: "str_includes (toLowerCase ''src/Components'') ''components''"
    by (simp add: toLowerCase_def lower_char_def)
  have others: "api_rule library_repository large_snapshot"
    "library_rule library_repository large_snapshot"
    "language_rule library_repository large_snapshot"
    by (simp_all add: large_snapshot_def library_repository_def to_repository_def api_rule_def
        library_rule_def language_rule_def lowered_directories_def some_def toLowerCase_def
        lower_char_def)
  have scenario: "inferMainPurpose library_repository large_snapshot = ''Web Application''"
    using purpose_first_match_wins [of library_repository large_snapshot "''src/Components''"]
      dir low
    by blast
  have routes: "\<not> web_rule library_repository (directories_snapshot [''src/routes''])"
    "api_rule library_repository (directories_snapshot [''src/routes''])"
    by (simp_all add: web_rule_def api_rule_def directories_snapshot_def empty_structure_def
        lowered_directories_def some_def toLowerCase_def lower_char_def)
  have api: "inferMainPurpose library_repository (directories_snapshot [''src/routes''])
      = ''API Server''"
    using purpose_first_match_wins [of library_repository "directories_snapshot [''src/routes'']"]
      routes
    by blast
  have manifest: "\<not> web_rule library_repository (empty_structure\<lparr>packageJsons := [JObj []]\<rparr>)"
    "\<not> api_rule library_repository (empty_structure\<lparr>packageJsons := [JObj []]\<rparr>)"
    "library_rule library_repository (empty_structure\<lparr>packageJsons := [JObj []]\<rparr>)"
    by (simp_all add: web_rule_def api_rule_def library_rule_def library_repository_def
        to_repository_def empty_structure_def lowered_directories_def some_def toLowerCase_def
        lower_char_def)
  have library: "inferMainPurpose library_repository (empty_structure\<lparr>packageJsons := [JObj []]\<rparr>)
       = ''Library/Package''"
    using purpose_first_match_wins
            [of library_repository "empty_structure\<lparr>packageJsons := [JObj []]\<rparr>"]
      manifest
    by blast
  have bin: "\<not> web_rule library_repository (directories_snapshot [''bin''])"
    "\<not> api_rule library_repository (directories_snapshot [''bin''])"
    "\<not> library_rule library_repository (directories_snapshot [''bin''])"
    "cli_rule library_repository (directories_snapshot [''bin''])"
    by (simp_all add: web_rule_def api_rule_def library_rule_def cli_rule_def
        directories_snapshot_def empty_structure_def lowered_directories_def some_def
        toLowerCase_def lower_char_def)
  have cli: "inferMainPurpose library_repository (directories_snapshot [''bin'']) = ''CLI Tool''"
    using purpose_first_match_wins [of library_repository "directories_snapshot [''bin'']"] bin
    by blast
  have android: "\<not> web_rule library_repository (directories_snapshot [''android''])"
    "\<not> api_rule library_repository (directories_snapshot [''android''])"
    "\<not> library_rule library_repository (directories_snapshot [''android''])"
    "\<not> cli_rule library_repository (directories_snapshot [''android''])"
    "mobile_rule library_repository (directories_snapshot [''android''])"
    by (simp_all add: web_rule_def api_rule_def library_rule_def cli_rule_def mobile_rule_def
        directories_snapshot_def empty_structure_def lowered_directories_def some_def
        toLowerCase_def lower_char_def)
  have mobile: "inferMainPurpose library_repository (directories_snapshot [''android''])
       = ''Mobile Application''"
    using purpose_first_match_wins [of library_repository "directories_snapshot [''android'']"]
      android
    by blast
  have none: "\<not> web_rule library_repository empty_structure"
    "\<not> api_rule library_repository empty_structure"
    "\<not> library_rule library_repository empty_structure"
    "\<not> cli_rule library_repository empty_structure"
    "\<not> mobile_rule library_repository empty_structure"
    "\<not> language_rule library_repository empty_structure"
    by (simp_all add: web_rule_def api_rule_def library_rule_def cli_rule_def mobile_rule_def
        language_rule_def empty_structure_def lowered_directories_def some_def)
  have "inferMainPurpose library_repository empty_structure
      = (if language_rule library_repository empty_structure then ''Website''
         else ''Software Project'')"
    using purpose_first_match_wins [of library_repository empty_structure] none by blast
  then have fallback: "inferMainPurpose library_repository empty_structure = ''Software Project''"
    using none by simp
  show ?thesis
    using dir low others scenario routes api manifest library bin cli android mobile fallback
    by blast
qed

section \<open>The security scan\<close>

lemma sensitive_file_issues_append [simp]:
  "sensitive_file_issues (xs @ ys) = sensitive_file_issues xs @ sensitive_file_issues ys"
  by (simp add: sensitive_file_issues_def)

lemma sensitive_of_sensitive [simp]:
  "sensitive_file_issues (map sensitive_file_issue fs) = map sensitive_file_issue fs"
  by (induction fs) (simp_all add: sensitive_file_issues_def sensitive_file_issue_def)

lemma sensitive_of_hardcoded [simp]:
  "sensitive_file_issues (concat (map (hardcoded_secret_issues e) pkgs)) = []"
  by (induction pkgs) (simp_all add: sensitive_file_issues_def hardcoded_secret_issues_def Let_def)

lemma sensitive_of_missing [simp]:
  "sensitive_file_issues (missing_security_config_issues st) = []"
  "sensitive_file_issues (missing_https_issues st) = []"
  by (simp_all add: sensitive_file_issues_def missing_security_config_issues_def
        missing_https_issues_def Let_def)

lemma sensitive_of_outdated:
  "outdated_dependency_issues pkg = Inr new \<Longrightarrow> sensitive_file_issues new = []"
  by (auto simp: outdated_dependency_issues_def sensitive_file_issues_def Let_def
        split: sum.splits if_splits)

lemma sensitive_of_outdated_loop:
  "forEach_err (\<lambda>pkg acc. case outdated_dependency_issues pkg of
                             Inl err \<Rightarrow> Inl err
                           | Inr new \<Rightarrow> Inr (acc @ new)) pkgs acc = Inr found
   \<Longrightarrow> sensitive_file_issues found = sensitive_file_issues acc"
proof (induction pkgs arbitrary: acc)
  case Nil
  then show ?case by simp
next
  case (Cons pkg pkgs)
  then show ?case
    by (auto split: sum.splits simp: sensitive_of_outdated)
qed

lemma scan_sensitive_files:
  assumes "scan_issues e st = Inr found"
  shows "sensitive_file_issues found = map sensitive_file_issue (filter is_sensitive_file (files st))"
proof -
  obtain mid where loop: "forEach_err (\<lambda>pkg acc. case outdated_dependency_issues pkg of
                             Inl err \<Rightarrow> Inl err
                           | Inr new \<Rightarrow> Inr (acc @ new)) (packageJsons st)
        ((map sensitive_file_issue (filter is_sensitive_file (files st))
           @ concat (map (hardcoded_secret_issues e) (packageJsons st)))
           @ missing_security_config_issues st) = Inr mid"
    and found: "found = mid @ missing_https_issues st"
    using assms by (auto simp: scan_issues_def Let_def split: sum.splits)
  show ?thesis
    using sensitive_of_outdated_loop [OF loop] found by simp
qed

text \<open>
  Claim C4, as amended. In every scan of a snapshot that completes, the issues of type
  \<open>sensitive_file\<close> are, in order, one issue for each file whose name contains one of
  the substrings \<open>.env\<close>, \<open>secret\<close>, \<open>key\<close>, \<open>password\<close>, \<open>token\<close>, of severity \<open>high\<close> and
  referencing the path of the file, and no other file produces one; a snapshot whose
  only file is named \<open>.env.production\<close> yields exactly one such issue.
\<close>

theorem sensitive_files_reported:
  "(scan_issues e st = Inr found \<longrightarrow>
      sensitive_file_issues found = map sensitive_file_issue (filter is_sensitive_file (files st)))
   \<and> is_sensitive_file file =
       (str_includes (fc_name file) ''.env'' \<or> str_includes (fc_name file) ''secret''
        \<or> str_includes (fc_name file) ''key'' \<or> str_includes (fc_name file) ''password''
        \<or> str_includes (fc_name file) ''token'')
   \<and> si_type (sensitive_file_issue file) = ''sensitive_file''
   \<and> severity (sensitive_file_issue file) = ''high''
   \<and> si_file (sensitive_file_issue file) = Some (fc_path file)
   \<and> (fc_name file = ''.env.production'' \<longrightarrow> is_sensitive_file file)
   \<and> (scan_issues e st = Inr found \<and> files st = [file] \<and> fc_name file = ''.env.production'' \<longrightarrow>
        sensitive_file_issues found = [sensitive_file_issue file])"
proof -
  have prod: "is_sensitive_file file" if "fc_name file = ''.env.production''"
    using that by (simp add: is_sensitive_file_def)
  show ?thesis
    using scan_sensitive_files [of e st found] prod
    by (auto simp: is_sensitive_file_def sensitive_file_issue_def)
qed

lemmas scan_eval = scan_issues_def missing_security_config_issues_def missing_https_issues_def
  hardcoded_secret_issues_def outdated_dependency_issues_def is_sensitive_file_def
  sensitive_file_issue_def sensitive_file_issues_def all_deps_def get_prop_def spread2_def
  own_entries_def is_outdated_def some_def truthy_def Let_def
  environment_snapshot_def environment_file_def production_snapshot_def production_env_file_def
  empty_structure_def new_file_def entry_def sample_env_def

lemma production_scan:
  "scan_issues sample_env production_snapshot =
     Inr (sensitive_file_issue production_env_file
            # missing_security_config_issues production_snapshot
            @ missing_https_issues production_snapshot)"
  by (simp add: scan_eval)

text \<open>The theorem on the snapshot whose only file is \<open>.env.production\<close>.\<close>

theorem sensitive_files_reported_witness:
  "scan_issues sample_env production_snapshot =
     Inr (sensitive_file_issue production_env_file
            # missing_security_config_issues production_snapshot
            @ missing_https_issues production_snapshot)
   \<and> files production_snapshot = [production_env_file]
   \<and> fc_name production_env_file = ''.env.production''
   \<and> sensitive_file_issues (sensitive_file_issue production_env_file
            # missing_security_config_issues production_snapshot
            @ missing_https_issues production_snapshot)
       = [sensitive_file_issue production_env_file]"
proof -
  have a: "files production_snapshot = [production_env_file]"
    "fc_name production_env_file = ''.env.production''"
    by (simp_all add: production_snapshot_def production_env_file_def new_file_def entry_def)
  show ?thesis
    using sensitive_files_reported [of sample_env production_snapshot
        "sensitive_file_issue production_env_file
            # missing_security_config_issues production_snapshot
            @ missing_https_issues production_snapshot" production_env_file]
      production_scan a
    by blast
qed

text \<open>
  Claim C4 as stated fails: the name \<open>environment.ts\<close> contains the substring \<open>env\<close>, and
  the scan of a snapshot with that file alone reports no issue of type \<open>sensitive_file\<close>.
\<close>

theorem env_substring_counterexample:
  "str_includes (fc_name environment_file) ''env''
   \<and> files environment_snapshot = [environment_file]
   \<and> scan_issues sample_env environment_snapshot =
       Inr (missing_security_config_issues environment_snapshot
              @ missing_https_issues environment_snapshot)
   \<and> sensitive_file_issues (missing_security_config_issues environment_snapshot
              @ missing_https_issues environment_snapshot) = []"
  by (simp add: scan_eval)


lemma count_severity_append:
  "count_severity sev (xs @ ys) = count_severity sev xs + count_severity sev ys"
  by (simp add: count_severity_def)

lemma securityScore_formula:
  "securityScore found =
     score_formula (count_severity ''critical'' found) (count_severity ''high'' found)
       (count_severity ''medium'' found) (count_severity ''low'' found)"
  by (simp add: securityScore_def score_formula_def Let_def mult.commute)

lemma execute_securityAnalysis:
  assumes "fst (securityScanTool_execute e svc ctx) = Inr out"
  shows "score (securityAnalysis out) = securityScore (issues (securityAnalysis out))
    \<and> issuesBySeverity (securityAnalysis out) =
        \<lparr>critical = count_severity ''critical'' (issues (securityAnalysis out)),
         high = count_severity ''high'' (issues (securityAnalysis out)),
         medium = count_severity ''medium'' (issues (securityAnalysis out)),
         low = count_severity ''low'' (issues (securityAnalysis out))\<rparr>"
  using assms
  by (auto simp: securityScanTool_execute_def Let_def
        split: prod.splits sum.splits option.splits)

text \<open>
  Claim C6. In every result of a security scan the score is
  \<open>max 0 (100 - 25 * critical - 15 * high - 10 * medium - 5 * low)\<close>, where the four counts
  are the numbers of issues of each severity that the scan found. The score does not
  rise when issues are added, is never negative, and is 0 as soon as there are five
  critical issues.
\<close>

theorem security_score_formula:
  "(fst (securityScanTool_execute e svc ctx) = Inr out \<longrightarrow>
      score (securityAnalysis out) =
        score_formula (critical (issuesBySeverity (securityAnalysis out)))
          (high (issuesBySeverity (securityAnalysis out)))
          (medium (issuesBySeverity (securityAnalysis out)))
          (low (issuesBySeverity (securityAnalysis out)))
      \<and> critical (issuesBySeverity (securityAnalysis out))
          = length (filter (\<lambda>issue. severity issue = ''critical'') (issues (securityAnalysis out)))
      \<and> high (issuesBySeverity (securityAnalysis out))
          = length (filter (\<lambda>issue. severity issue = ''high'') (issues (securityAnalysis out)))
      \<and> medium (issuesBySeverity (securityAnalysis out))
          = length (filter (\<lambda>issue. severity issue = ''medium'') (issues (securityAnalysis out)))
      \<and> low (issuesBySeverity (securityAnalysis out))
          = length (filter (\<lambda>issue. severity issue = ''low'') (issues (securityAnalysis out))))
   \<and> securityScore found =
        score_formula (count_severity ''critical'' found) (count_severity ''high'' found)
          (count_severity ''medium'' found) (count_severity ''low'' found)
   \<and> securityScore (found @ added) \<le> securityScore found
   \<and> score_formula (c + c') (h + h') (m + m') (l + l') \<le> score_formula c h m l
   \<and> 0 \<le> score_formula c h m l
   \<and> (5 \<le> c \<longrightarrow> score_formula c h m l = 0)
   \<and> score_formula 5 0 0 0 = 0"
proof -
  have a: "fst (securityScanTool_execute e svc ctx) = Inr out \<longrightarrow>
      score (securityAnalysis out) =
        score_formula (critical (issuesBySeverity (securityAnalysis out)))
          (high (issuesBySeverity (securityAnalysis out)))
          (medium (issuesBySeverity (securityAnalysis out)))
          (low (issuesBySeverity (securityAnalysis out)))
      \<and> critical (issuesBySeverity (securityAnalysis out))
          = length (filter (\<lambda>issue. severity issue = ''critical'') (issues (securityAnalysis out)))
      \<and> high (issuesBySeverity (securityAnalysis out))
          = length (filter (\<lambda>issue. severity issue = ''high'') (issues (securityAnalysis out)))
      \<and> medium (issuesBySeverity (securityAnalysis out))
          = length (filter (\<lambda>issue. severity issue = ''medium'') (issues (securityAnalysis out)))
      \<and> low (issuesBySeverity (securityAnalysis out))
          = length (filter (\<lambda>issue. severity issue = ''low'') (issues (securityAnalysis out)))"
    using execute_securityAnalysis [of e svc ctx out]
    by (auto simp: securityScore_formula count_severity_def)
  have b: "securityScore (found @ added) \<le> securityScore found"
    by (simp add: securityScore_formula score_formula_def count_severity_append)
  have c: "score_formula (c + c') (h + h') (m + m') (l + l') \<le> score_formula c h m l"
    by (simp add: score_formula_def)
  have d: "0 \<le> score_formula c h m l" "5 \<le> c \<longrightarrow> score_formula c h m l = 0"
    "score_formula 5 0 0 0 = 0"
    by (simp_all add: score_formula_def)
  show ?thesis
    using a b c d securityScore_formula [of found] by blast
qed

lemmas tool_eval = sample_service_def new_service_def setAccount_def isConfigured_def
  getAllRepositories_def cache_hit_def to_repository_def or_else_def license_or_null_def
  sample_repo_def find_repository_def getRepositoryStructure_def getRepositoryStructure_run_def
  not_found_def

text \<open>
  The theorem on the scan of the sample repository, which finds one high and two medium
  issues and scores 65; with five critical issues more the score is 0.
\<close>

theorem security_score_formula_witness:
  "fst (securityScanTool_execute sample_env sample_service sample_scan_context)
     = Inr sample_scan_output
   \<and> score (securityAnalysis sample_scan_output) = score_formula 0 1 2 0
   \<and> score_formula 0 1 2 0 = 65
   \<and> (5::nat) \<le> 5 \<and> score_formula 5 1 2 0 = 0"
proof -
  have run: "fst (securityScanTool_execute sample_env sample_service sample_scan_context)
     = Inr sample_scan_output"
    by (simp add: securityScanTool_execute_def sample_scan_context_def sample_scan_output_def
          securityScore_def count_severity_def scan_failed_def tool_eval scan_eval eval_defs)
  have counts: "issuesBySeverity (securityAnalysis sample_scan_output)
      = \<lparr>critical = 0, high = 1, medium = 2, low = 0\<rparr>"
    by (simp add: sample_scan_output_def)
  have val: "score_formula 0 1 2 0 = 65"
    by (simp add: score_formula_def)
  note inst = security_score_formula [of sample_env sample_service sample_scan_context
        sample_scan_output "[]" "[]" 5 0 1 0 2 0 0 0]
  have "score (securityAnalysis sample_scan_output) =
        score_formula (critical (issuesBySeverity (securityAnalysis sample_scan_output)))
          (high (issuesBySeverity (securityAnalysis sample_scan_output)))
          (medium (issuesBySeverity (securityAnalysis sample_scan_output)))
          (low (issuesBySeverity (securityAnalysis sample_scan_output)))"
    using inst run by blast
  then have sc: "score (securityAnalysis sample_scan_output) = score_formula 0 1 2 0"
    by (simp only: counts severity_counts.simps)
  have five: "(5::nat) \<le> 5" by simp
  have "(5::nat) \<le> 5 \<longrightarrow> score_formula 5 1 2 0 = 0"
    using inst by blast
  then have zero: "score_formula 5 1 2 0 = 0"
    using five by blast
  show ?thesis
    using run sc val five zero by blast
qed

section \<open>The tools\<close>

lemma insert_by_last: "(\<And>y. cmp x y = 0) \<Longrightarrow> insert_by cmp x ys = ys @ [x]"
  by (induction ys) simp_all

lemma fold_insert_by_const:
  "(\<And>x y. cmp x y = 0) \<Longrightarrow> fold (insert_by cmp) xs acc = acc @ xs"
  by (induction xs arbitrary: acc) (simp_all add: insert_by_last)

lemma sort_by_const: "(\<And>x y. cmp x y = 0) \<Longrightarrow> sort_by cmp xs = xs"
  by (simp add: sort_by_def fold_insert_by_const)

lemma compare_stars: "compare_repositories e ''stars'' a b = 0"
  by (simp add: compare_repositories_def)

lemma filter_repositories_filter:
  "filter_repositories ctx repos =
     filter (\<lambda>r. (lc_includePrivate ctx \<or> \<not> is_private r)
                  \<and> (truthy (lc_language ctx) \<longrightarrow> language_matches (the (lc_language ctx)) r)) repos"
  by (simp add: filter_repositories_def Let_def)

text \<open>
  Claim C9. With \<open>sortBy = "stars"\<close> the comparator of \<open>list_repositories\<close> returns 0 for
  every pair, the sort leaves the list as it is, and the tool returns the first \<open>limit\<close>
  of the fetched repositories that pass the filters, in the order in which they were
  fetched: the option never orders the result by star count.
\<close>

theorem stars_sort_keeps_fetch_order:
  "compare_repositories e ''stars'' a b = 0
   \<and> sort_by (compare_repositories e ''stars'') repos = repos
   \<and> (lc_sortBy ctx = ''stars'' \<and> fst (getAllRepositories e svc False) = Inr repos \<longrightarrow>
        (\<exists>out. fst (listRepositoriesTool_execute e svc ctx) = Inr out
           \<and> lo_repositories out = take (lc_limit ctx) (filter_repositories ctx repos)
           \<and> lo_total out = length (filter_repositories ctx repos)))
   \<and> filter_repositories ctx repos =
        filter (\<lambda>r. (lc_includePrivate ctx \<or> \<not> is_private r)
                     \<and> (truthy (lc_language ctx) \<longrightarrow> language_matches (the (lc_language ctx)) r))
          repos"
proof -
  have s: "sort_by (compare_repositories e ''stars'') xs = xs" for xs
    by (rule sort_by_const) (rule compare_stars)
  have t: "\<exists>out. fst (listRepositoriesTool_execute e svc ctx) = Inr out
           \<and> lo_repositories out = take (lc_limit ctx) (filter_repositories ctx repos)
           \<and> lo_total out = length (filter_repositories ctx repos)"
    if "lc_sortBy ctx = ''stars''" and "fst (getAllRepositories e svc False) = Inr repos"
    using that s
    by (cases "getAllRepositories e svc False")
       (simp add: listRepositoriesTool_execute_def Let_def)
  show ?thesis
    using s t compare_stars filter_repositories_filter by blast
qed

text \<open>
  The theorem on the account with two repositories: they are fetched with 5 and 900
  stars, in this order, and returned in this order.
\<close>

theorem stars_sort_keeps_fetch_order_witness:
  "lc_sortBy stars_context = ''stars''
   \<and> fst (getAllRepositories two_repo_env sample_service False)
       = Inr (map (to_repository two_repo_env (the (currentAccount sample_service)))
                [sample_repo, starred_repo])
   \<and> map stars (filter_repositories stars_context
         (map (to_repository two_repo_env (the (currentAccount sample_service)))
                [sample_repo, starred_repo])) = [5, 900]
   \<and> (\<exists>out. fst (listRepositoriesTool_execute two_repo_env sample_service stars_context) = Inr out
        \<and> lo_repositories out = take (lc_limit stars_context)
             (filter_repositories stars_context
                (map (to_repository two_repo_env (the (currentAccount sample_service)))
                   [sample_repo, starred_repo])))"
proof -
  have a: "lc_sortBy stars_context = ''stars''"
    by (simp add: stars_context_def)
  have b: "fst (getAllRepositories two_repo_env sample_service False)
       = Inr (map (to_repository two_repo_env (the (currentAccount sample_service)))
                [sample_repo, starred_repo])"
    by (simp add: two_repo_env_def sample_env_def sample_service_def new_service_def
          setAccount_def isConfigured_def getAllRepositories_def cache_hit_def truthy_def Let_def)
  have c: "map stars (filter_repositories stars_context
         (map (to_repository two_repo_env (the (currentAccount sample_service)))
                [sample_repo, starred_repo])) = [5, 900]"
    by (simp add: filter_repositories_def stars_context_def truthy_def to_repository_def
          sample_repo_def starred_repo_def)
  show ?thesis
    using stars_sort_keeps_fetch_order [of two_repo_env library_repository library_repository
        "map (to_repository two_repo_env (the (currentAccount sample_service)))
                [sample_repo, starred_repo]" stars_context sample_service] a b c
    by blast
qed

lemmas analyzer_eval = analyzeCodebaseTool_execute_def analyzeCodebase_def analyze_result_def
  analyze_failed_def detectFrameworks_def detectTechnologies_def detectPatterns_def
  assessComplexity_def inferMainPurpose_def extractKeyFeatures_def for_each_dep_def
  add_matching_def add_def framework_rules_def technology_rules_def feature_rules_def
  directory_pattern_rules_def file_pattern_rules_def directory_feature_rules_def
  extension_technology_def to_package_manager_def keys_or_empty_def js_truthy_def
  all_deps_def get_prop_def spread2_def own_entries_def

text \<open>
  Claim C2 does not hold of the code: \<open>analyze_codebase\<close> reads \<open>maxDepth\<close> from its input
  and never uses it, so its result is the same for every \<open>maxDepth\<close>, and the snapshot
  is built by the traversal with the default depth 3. On the sample repository with
  \<open>maxDepth = 1\<close> a traversal bounded by 1 records two directories, and the tool reports
  four.
\<close>

theorem analyze_ignores_maxDepth:
  "analyzeCodebaseTool_execute e svc (ctx\<lparr>ac_maxDepth := d\<rparr>) = analyzeCodebaseTool_execute e svc ctx
   \<and> analyze_input_ok shallow_context
   \<and> ac_maxDepth shallow_context = 1
   \<and> directories (snapshot (traverseRepository sample_env ''t'' ''octo'' ''app'' [] start 1 0))
        = [''src'', ''src/components'']
   \<and> fst (analyzeCodebaseTool_execute sample_env sample_service shallow_context)
        = Inr sample_analyze_output
   \<and> directoryCount (ao_structure sample_analyze_output) = 4"
proof -
  have a: "analyzeCodebaseTool_execute e svc (ctx\<lparr>ac_maxDepth := d\<rparr>)
      = analyzeCodebaseTool_execute e svc ctx"
    by (simp add: analyzeCodebaseTool_execute_def Let_def)
  have b: "analyze_input_ok shallow_context" "ac_maxDepth shallow_context = 1"
    by (simp_all add: analyze_input_ok_def shallow_context_def)
  have c: "directories (snapshot (traverseRepository sample_env ''t'' ''octo'' ''app'' [] start 1 0))
        = [''src'', ''src/components'']"
    by (simp add: eval_defs)
  have d: "fst (analyzeCodebaseTool_execute sample_env sample_service shallow_context)
        = Inr sample_analyze_output"
    by (simp add: analyzer_eval shallow_context_def sample_analyze_output_def tool_eval eval_defs)
  have f: "directoryCount (ao_structure sample_analyze_output) = 4"
    by (simp add: sample_analyze_output_def)
  show ?thesis using a b c d f by blast
qed

end
